theory Spec2Isabelle
  imports Complex_Main
begin

section \<open>Tensors and the TensorFlow primitives used by the optimizers\<close>

text \<open>
  A tensor is the list of its entries; its shape is its length.  Entries and Python
  floats are exact reals: rounding, overflow and the IEEE values inf and NaN are not
  part of this model (the activation is also given on floats with a range, further
  down).  Elementwise operations on two tensors are only ever applied after their
  lengths have been compared, a difference being a shape error.
\<close>

type_synonym tensor = "real list"

datatype error = KeyError | IndexError | ShapeError | AttributeError | ZeroDivisionError

definition tf_square :: "tensor \<Rightarrow> tensor" where
  "tf_square x = map (\<lambda>a. a\<^sup>2) x"

definition tf_sqrt :: "tensor \<Rightarrow> tensor" where
  "tf_sqrt x = map sqrt x"

definition tf_maximum :: "tensor \<Rightarrow> tensor \<Rightarrow> tensor" where
  "tf_maximum x y = map2 max x y"

definition tneg :: "tensor \<Rightarrow> tensor" where
  "tneg x = map uminus x"

definition tscale :: "tensor \<Rightarrow> real \<Rightarrow> tensor" where
  "tscale x c = map (\<lambda>a. a * c) x"

definition tshift :: "tensor \<Rightarrow> real \<Rightarrow> tensor" where
  "tshift x c = map (\<lambda>a. a + c) x"

definition tadd :: "tensor \<Rightarrow> tensor \<Rightarrow> tensor" where
  "tadd x y = map2 (+) x y"

definition tsub :: "tensor \<Rightarrow> tensor \<Rightarrow> tensor" where
  "tsub x y = map2 (-) x y"

definition tdiv :: "tensor \<Rightarrow> tensor \<Rightarrow> tensor" where
  "tdiv x y = map2 (/) x y"

text \<open>\<open>tf.reduce_mean\<close> and \<open>tf.math.reduce_std\<close> without an axis: one scalar for the
  whole tensor, the standard deviation being the population one (the square root of
  the mean squared deviation).  On the empty tensor TensorFlow's values are NaN; they
  are only ever broadcast over the entries of that same tensor, of which there are
  none.\<close>

definition reduce_mean :: "tensor \<Rightarrow> real" where
  "reduce_mean x = sum_list x / real (length x)"

definition reduce_std :: "tensor \<Rightarrow> real" where
  "reduce_std x = sqrt (reduce_mean (map (\<lambda>a. (a - reduce_mean x)\<^sup>2) x))"

text \<open>\<open>tf.math.divide_no_nan\<close>: the quotient, and 0 where the divisor is 0.\<close>

definition divide_no_nan :: "real \<Rightarrow> real \<Rightarrow> real" where
  "divide_no_nan a b = (if b = 0 then 0 else a / b)"

section \<open>The momentum activation\<close>

text \<open>\<open>AdAlpha_Momentum._m_activ\<close>.  The scalar the source builds twice from the
  tensor, \<open>|mean(m)| - std(m)\<close>, is named \<open>dispersion\<close>; the numerator takes its
  absolute value, scales it by 0.01 and squares it, the denominator squares it and
  scales the square by 0.1.\<close>

definition dispersion :: "tensor \<Rightarrow> real" where
  "dispersion m = \<bar>reduce_mean m\<bar> - reduce_std m"

definition m_activ :: "tensor \<Rightarrow> tensor" where
  "m_activ m =
     map (\<lambda>x. x * (2 - divide_no_nan (x\<^sup>2 - (0.01 * \<bar>dispersion m\<bar>)\<^sup>2)
                                      (x\<^sup>2 + 0.1 * (dispersion m)\<^sup>2))\<^sup>2) m"

text \<open>The activation as the specification words it, for comparison: the quotient
  \<open>(x\<^sup>2 - d\<^sup>2) / (x\<^sup>2 + 0.1 d\<^sup>2)\<close> with \<open>d = |mean(x) - std(x)|\<close>.\<close>

definition spec_d :: "tensor \<Rightarrow> real" where
  "spec_d x = \<bar>reduce_mean x - reduce_std x\<bar>"

definition spec_activate :: "tensor \<Rightarrow> tensor" where
  "spec_activate x =
     map (\<lambda>a. a * (2 - divide_no_nan (a\<^sup>2 - (spec_d x)\<^sup>2) (a\<^sup>2 + 0.1 * (spec_d x)\<^sup>2))\<^sup>2) x"

section \<open>The momentum activation at the edge of the float range\<close>

text \<open>
  What \<open>_m_activ\<close> returns when an intermediate result leaves the float range
  depends on the IEEE values, so for that question the entries are values of the
  float type: a finite real, one of the two infinities, or NaN.  A finite result whose
  magnitude exceeds the largest finite value of float32, the default type of a Keras
  variable, becomes an infinity.  The rounding of finite results and the sign of
  zero are not modelled.
\<close>

datatype fval = Finite real | PosInf | NegInf | NaN

definition float_max :: real where
  "float_max = 340282346638528859811704183484516925440"

definition ovf :: "real \<Rightarrow> fval" where
  "ovf x = (if float_max < x then PosInf else if x < - float_max then NegInf else Finite x)"

fun fneg :: "fval \<Rightarrow> fval" where
  "fneg (Finite a) = Finite (- a)"
| "fneg PosInf = NegInf"
| "fneg NegInf = PosInf"
| "fneg NaN = NaN"

fun fabs :: "fval \<Rightarrow> fval" where
  "fabs (Finite a) = Finite \<bar>a\<bar>"
| "fabs PosInf = PosInf"
| "fabs NegInf = PosInf"
| "fabs NaN = NaN"

fun fadd :: "fval \<Rightarrow> fval \<Rightarrow> fval" where
  "fadd (Finite a) (Finite b) = ovf (a + b)"
| "fadd NaN y = NaN"
| "fadd x NaN = NaN"
| "fadd PosInf NegInf = NaN"
| "fadd NegInf PosInf = NaN"
| "fadd PosInf y = PosInf"
| "fadd x PosInf = PosInf"
| "fadd NegInf y = NegInf"
| "fadd x NegInf = NegInf"

definition fsub :: "fval \<Rightarrow> fval \<Rightarrow> fval" where
  "fsub x y = fadd x (fneg y)"

fun fmul :: "fval \<Rightarrow> fval \<Rightarrow> fval" where
  "fmul (Finite a) (Finite b) = ovf (a * b)"
| "fmul NaN y = NaN"
| "fmul x NaN = NaN"
| "fmul (Finite a) PosInf = (if a = 0 then NaN else if 0 < a then PosInf else NegInf)"
| "fmul (Finite a) NegInf = (if a = 0 then NaN else if 0 < a then NegInf else PosInf)"
| "fmul PosInf (Finite b) = (if b = 0 then NaN else if 0 < b then PosInf else NegInf)"
| "fmul NegInf (Finite b) = (if b = 0 then NaN else if 0 < b then NegInf else PosInf)"
| "fmul PosInf PosInf = PosInf"
| "fmul NegInf NegInf = PosInf"
| "fmul PosInf NegInf = NegInf"
| "fmul NegInf PosInf = NegInf"

fun fdiv :: "fval \<Rightarrow> fval \<Rightarrow> fval" where
  "fdiv (Finite a) (Finite b) =
     (if b = 0 then (if a = 0 then NaN else if 0 < a then PosInf else NegInf)
      else ovf (a / b))"
| "fdiv NaN y = NaN"
| "fdiv x NaN = NaN"
| "fdiv (Finite a) PosInf = Finite 0"
| "fdiv (Finite a) NegInf = Finite 0"
| "fdiv PosInf (Finite b) = (if 0 \<le> b then PosInf else NegInf)"
| "fdiv NegInf (Finite b) = (if 0 \<le> b then NegInf else PosInf)"
| "fdiv x y = NaN"

fun fsqrt :: "fval \<Rightarrow> fval" where
  "fsqrt (Finite a) = (if a < 0 then NaN else Finite (sqrt a))"
| "fsqrt PosInf = PosInf"
| "fsqrt NegInf = NaN"
| "fsqrt NaN = NaN"

definition fsquare :: "fval \<Rightarrow> fval" where
  "fsquare x = fmul x x"

text \<open>\<open>tf.math.divide_no_nan\<close> on floats: 0 where the divisor is zero, whatever the
  dividend, and the IEEE quotient elsewhere.\<close>

definition divide_no_nan_f :: "fval \<Rightarrow> fval \<Rightarrow> fval" where
  "divide_no_nan_f x y = (if y = Finite 0 then Finite 0 else fdiv x y)"

definition reduce_mean_f :: "fval list \<Rightarrow> fval" where
  "reduce_mean_f x = fdiv (foldl fadd (Finite 0) x) (Finite (real (length x)))"

definition reduce_std_f :: "fval list \<Rightarrow> fval" where
  "reduce_std_f x =
     fsqrt (reduce_mean_f (map (\<lambda>a. fsquare (fsub a (reduce_mean_f x))) x))"

definition dispersion_f :: "fval list \<Rightarrow> fval" where
  "dispersion_f m = fsub (fabs (reduce_mean_f m)) (reduce_std_f m)"

text \<open>\<open>AdAlpha_Momentum._m_activ\<close> on floats, operation by operation as above;
  \<open>tf.pow(y, 2)\<close> is the product of \<open>y\<close> with itself.\<close>

definition m_activ_f :: "fval list \<Rightarrow> fval list" where
  "m_activ_f m =
     map (\<lambda>x. fmul x
            (fsquare
               (fsub (Finite 2)
                  (divide_no_nan_f
                     (fsub (fsquare x) (fsquare (fmul (Finite 0.01) (fabs (dispersion_f m)))))
                     (fadd (fsquare x) (fmul (Finite 0.1) (fsquare (dispersion_f m)))))))) m"

section \<open>Optimizer state\<close>

text \<open>A model variable is owned by the training loop; the optimizer identifies it by
  the key \<open>_var_key\<close> gives it and reads and writes its tensor.\<close>

record variable =
  var_key :: nat
  var_value :: tensor

text \<open>A gradient is a dense tensor or a \<open>tf.IndexedSlices\<close> (values and the indices
  they belong to).\<close>

datatype gradient = Dense tensor | IndexedSlices tensor "nat list"

text \<open>The fields of \<open>Adalpha\<close>.  \<open>chaos_punish\<close> is the exponent of Python's \<open>**\<close>;
  it is a natural number here, as the default 1 and the 6 of \<open>main.py\<close> are.
  \<open>velocity_hats\<close> is \<open>None\<close> while the attribute \<open>_velocity_hats\<close> does not exist.\<close>

record optimizer =
  learning_rate :: real
  beta_1 :: real
  beta_2 :: real
  epsilon :: real
  amsgrad :: bool
  chaos_punish :: nat
  std :: real
  iterations :: nat
  built :: bool
  index_dict :: "nat \<rightharpoonup> nat"
  momentums :: "tensor list"
  velocities :: "tensor list"
  velocity_hats :: "tensor list option"

text \<open>\<open>Adalpha.__init__\<close>: the hyperparameters are stored, the control signal \<open>std\<close>
  starts at 1.0, nothing is built.\<close>

definition Adalpha_init :: "real \<Rightarrow> nat \<Rightarrow> real \<Rightarrow> real \<Rightarrow> real \<Rightarrow> bool \<Rightarrow> optimizer" where
  "Adalpha_init lr chaos_punishment b1 b2 eps ams =
     \<lparr>learning_rate = lr, beta_1 = b1, beta_2 = b2, epsilon = eps, amsgrad = ams,
      chaos_punish = chaos_punishment, std = 1, iterations = 0, built = False,
      index_dict = Map.empty, momentums = [], velocities = [], velocity_hats = None\<rparr>"

text \<open>Modelled from the spec: \<open>add_variable_from_reference\<close> belongs to the base
  optimizer, which is not part of the repository; it allocates a zero tensor shaped
  like the parameter.\<close>

definition add_variable_from_reference :: "variable \<Rightarrow> tensor" where
  "add_variable_from_reference var = replicate (length (var_value var)) 0"

text \<open>Modelled from the spec: \<open>super().build\<close> belongs to the base optimizer, which is
  not part of the repository; it is idempotent, and on its first call records the
  position of every variable of the list under the variable's key.\<close>

definition base_build :: "variable list \<Rightarrow> optimizer \<Rightarrow> optimizer" where
  "base_build var_list s =
     (if built s then s
      else s\<lparr>index_dict :=
                fold (\<lambda>(i, var) d. d(var_key var \<mapsto> i)) (enumerate 0 var_list) Map.empty\<rparr>)"

text \<open>\<open>Adalpha.build\<close>.\<close>

definition build :: "variable list \<Rightarrow> optimizer \<Rightarrow> optimizer" where
  "build var_list s0 =
     (let s = base_build var_list s0 in
      if built s then s
      else
        let s1 = s\<lparr>built := True,
                   momentums := map add_variable_from_reference var_list,
                   velocities := map add_variable_from_reference var_list\<rparr>
        in if amsgrad s1
           then s1\<lparr>velocity_hats := Some (map add_variable_from_reference var_list)\<rparr>
           else s1)"

text \<open>\<open>Adalpha.update_loss\<close>.\<close>

definition update_loss :: "real \<Rightarrow> optimizer \<Rightarrow> optimizer" where
  "update_loss new_std s = s\<lparr>std := new_std\<rparr>"

section \<open>The update step\<close>

text \<open>\<open>scatter_add\<close> adds each value at its index, one pair after the other, so a
  repeated index accumulates.  The caller has checked that there are as many indices
  as values and that every index is inside the tensor.\<close>

fun scatter_add :: "tensor \<Rightarrow> nat list \<Rightarrow> tensor \<Rightarrow> tensor" where
  "scatter_add x (i # idxs) (u # us) = scatter_add (x[i := x ! i + u]) idxs us"
| "scatter_add x _ _ = x"

definition slices_ok :: "tensor \<Rightarrow> nat list \<Rightarrow> tensor \<Rightarrow> bool" where
  "slices_ok x idxs vals \<longleftrightarrow> length idxs = length vals \<and> list_all (\<lambda>i. i < length x) idxs"

text \<open>The last statements of \<open>update_step\<close>, the same in both branches and in both
  classes: with AMS-grad the running maximum \<open>v_hat\<close> is updated and takes the place
  of \<open>v\<close>, then the variable is decreased by \<open>(m * alpha) / (sqrt(v) + epsilon)\<close>.
  \<open>m\<close> and \<open>v\<close> are the moments as already assigned; they are stored at position
  \<open>k\<close>.\<close>

definition assign_sub_step ::
  "nat \<Rightarrow> tensor \<Rightarrow> tensor \<Rightarrow> real \<Rightarrow> variable \<Rightarrow> optimizer \<Rightarrow> error + (variable \<times> optimizer)" where
  "assign_sub_step k m v alpha variable s =
     (let s1 = s\<lparr>momentums := (momentums s)[k := m], velocities := (velocities s)[k := v]\<rparr> in
      if length m \<noteq> length v \<or> length m \<noteq> length (var_value variable) then Inl ShapeError
      else if amsgrad s then
        (case velocity_hats s of
           None \<Rightarrow> Inl AttributeError
         | Some vhs \<Rightarrow>
             if length vhs \<le> k then Inl IndexError
             else if length (vhs ! k) \<noteq> length v then Inl ShapeError
             else
               let v_hat = tf_maximum (vhs ! k) v in
               Inr (variable\<lparr>var_value :=
                      tsub (var_value variable)
                        (tdiv (tscale m alpha) (tshift (tf_sqrt v_hat) (epsilon s)))\<rparr>,
                    s1\<lparr>velocity_hats := Some (vhs[k := v_hat])\<rparr>))
      else
        Inr (variable\<lparr>var_value :=
               tsub (var_value variable)
                 (tdiv (tscale m alpha) (tshift (tf_sqrt v) (epsilon s)))\<rparr>,
             s1))"

text \<open>\<open>Adalpha.update_step\<close>.  \<open>local_step\<close> is \<open>iterations + 1\<close>.  \<open>self.std\<close> is a
  Python float, read when the body is executed: the definition is the body as
  Python executes it, with the optimizer as it is at that moment.\<close>

definition update_step :: "gradient \<Rightarrow> variable \<Rightarrow> optimizer \<Rightarrow> error + (variable \<times> optimizer)" where
  "update_step gradient variable s =
     (let lr = learning_rate s;
          local_step = iterations s + 1;
          beta_1_power = beta_1 s ^ local_step;
          beta_2_power = beta_2 s ^ local_step
      in case index_dict s (var_key variable) of
           None \<Rightarrow> Inl KeyError
         | Some k \<Rightarrow>
             if length (momentums s) \<le> k \<or> length (velocities s) \<le> k then Inl IndexError
             else
               let m = momentums s ! k;
                   v = velocities s ! k;
                   alpha = lr * (sqrt (1 - beta_2_power) / (1 - beta_1_power))
                           * (1 - std s * real (chaos_punish s)) ^ chaos_punish s
               in case gradient of
                    IndexedSlices vals idxs \<Rightarrow>
                      if \<not> slices_ok m idxs vals \<or> \<not> slices_ok v idxs vals then Inl IndexError
                      else
                        let m1 = tadd m (tscale (tneg m) (1 - beta_1 s));
                            m2 = scatter_add m1 idxs (tscale vals (1 - beta_1 s));
                            v1 = tadd v (tscale (tneg v) (1 - beta_2 s));
                            v2 = scatter_add v1 idxs (tscale (tf_square vals) (1 - beta_2 s))
                        in assign_sub_step k m2 v2 alpha variable s
                  | Dense g \<Rightarrow>
                      if length g \<noteq> length m \<or> length g \<noteq> length v then Inl ShapeError
                      else
                        let m1 = tadd m (tscale (tsub g m) (1 - beta_1 s));
                            v1 = tadd v (tscale (tsub (tf_square g) v) (1 - beta_2 s))
                        in assign_sub_step k m1 v1 alpha variable s)"

text \<open>\<open>AdAlpha_Momentum.update_step\<close>: every term added to a moment goes through
  \<open>_m_activ\<close>, and \<open>alpha\<close> is scaled by \<open>std ** chaos_punish\<close>.\<close>

definition update_step_momentum ::
  "gradient \<Rightarrow> variable \<Rightarrow> optimizer \<Rightarrow> error + (variable \<times> optimizer)" where
  "update_step_momentum gradient variable s =
     (let lr = learning_rate s;
          local_step = iterations s + 1;
          beta_1_power = beta_1 s ^ local_step;
          beta_2_power = beta_2 s ^ local_step
      in case index_dict s (var_key variable) of
           None \<Rightarrow> Inl KeyError
         | Some k \<Rightarrow>
             if length (momentums s) \<le> k \<or> length (velocities s) \<le> k then Inl IndexError
             else
               let m = momentums s ! k;
                   v = velocities s ! k;
                   alpha = lr * (sqrt (1 - beta_2_power) / (1 - beta_1_power))
                           * std s ^ chaos_punish s
               in case gradient of
                    IndexedSlices vals idxs \<Rightarrow>
                      if \<not> slices_ok m idxs vals \<or> \<not> slices_ok v idxs vals then Inl IndexError
                      else
                        let m1 = tadd m (m_activ (tscale (tneg m) (1 - beta_1 s)));
                            m2 = scatter_add m1 idxs (m_activ (tscale vals (1 - beta_1 s)));
                            v1 = tadd v (m_activ (tscale (tneg v) (1 - beta_2 s)));
                            v2 = scatter_add v1 idxs
                                   (m_activ (tscale (tf_square vals) (1 - beta_2 s)))
                        in assign_sub_step k m2 v2 alpha variable s
                  | Dense g \<Rightarrow>
                      if length g \<noteq> length m \<or> length g \<noteq> length v then Inl ShapeError
                      else
                        let m1 = tadd m (m_activ (tscale (tsub g m) (1 - beta_1 s)));
                            v1 = tadd v (m_activ (tscale (tsub (tf_square g) v) (1 - beta_2 s)))
                        in assign_sub_step k m1 v1 alpha variable s)"

section \<open>Callbacks\<close>

text \<open>\<open>Adalpha_Callback\<close>.  Its fields \<open>a\<close> and \<open>b\<close> are \<open>ema_a\<close> and \<open>ema_b\<close> here.
  The quotient of \<open>_calculate_loss_std\<close> is a division of Python floats, which
  raises when the divisor is zero; the two assignments before it have happened then,
  \<open>update_loss\<close> has not.\<close>

record adalpha_callback =
  loss :: real
  ema_w :: real
  change :: real
  ema_a :: real
  ema_b :: real

definition Adalpha_Callback_init :: "real \<Rightarrow> real \<Rightarrow> adalpha_callback" where
  "Adalpha_Callback_init w chg = \<lparr>loss = 1, ema_w = w, change = chg, ema_a = 1, ema_b = 1\<rparr>"

definition calculate_loss_std ::
  "adalpha_callback \<Rightarrow> optimizer \<Rightarrow> error + (adalpha_callback \<times> optimizer)" where
  "calculate_loss_std cb opt =
     (let cb1 = cb\<lparr>ema_a := ema_w cb * loss cb + (1 - ema_w cb) * ema_a cb\<rparr>;
          cb2 = cb1\<lparr>ema_b := (1 - ema_w cb1) * loss cb1 + ema_w cb1 * ema_b cb1\<rparr>
      in if ema_b cb2 = 0 then Inl ZeroDivisionError
         else Inr (cb2, update_loss ((change cb2 * ema_a cb2) / ema_b cb2) opt))"

definition on_train_batch_end ::
  "(string \<rightharpoonup> real) \<Rightarrow> adalpha_callback \<Rightarrow> optimizer \<Rightarrow> error + (adalpha_callback \<times> optimizer)" where
  "on_train_batch_end logs cb opt =
     (case logs ''loss'' of
        None \<Rightarrow> Inl KeyError
      | Some l \<Rightarrow> calculate_loss_std (cb\<lparr>loss := l\<rparr>) opt)"

text \<open>\<open>OneCallback\<close>.  \<open>xs[-hold:]\<close> is Python's slice from a start index to the end:
  a negative start counts from the end and is clipped at the front, a start of 0
  (which \<open>-hold\<close> is when \<open>hold\<close> is 0) keeps the whole list.\<close>

record one_callback =
  losses :: "real list"
  hold :: int
  one_std :: real

definition OneCallback_init :: "int \<Rightarrow> one_callback" where
  "OneCallback_init num_to_hold = \<lparr>losses = [], hold = num_to_hold, one_std = 0\<rparr>"




section \<open>The training loop's calls\<close>

text \<open>The optimizer object is of one of the two classes, which decides the
  \<open>update_step\<close> that runs.\<close>

datatype variant = Base | Momentum

definition step :: "variant \<Rightarrow> gradient \<Rightarrow> variable \<Rightarrow> optimizer \<Rightarrow> error + (variable \<times> optimizer)" where
  "step c = (case c of Base \<Rightarrow> update_step | Momentum \<Rightarrow> update_step_momentum)"

text \<open>What the training loop and the callbacks do to an optimizer: a step for one
  variable with its gradient, the increment of the step counter \<open>iterations\<close> that
  ends an optimizer step, a new control signal, and a call of \<open>build\<close>.  A run is
  any sequence of these; an exception ends it.\<close>

datatype call = Update gradient variable | Iterate | UpdateLoss real | Build "variable list"

fun call_optimizer :: "variant \<Rightarrow> call \<Rightarrow> optimizer \<Rightarrow> error + optimizer" where
  "call_optimizer c (Update g var) s =
     (case step c g var s of Inl e \<Rightarrow> Inl e | Inr (var', s') \<Rightarrow> Inr s')"
| "call_optimizer c Iterate s = Inr (s\<lparr>iterations := iterations s + 1\<rparr>)"
| "call_optimizer c (UpdateLoss x) s = Inr (update_loss x s)"
| "call_optimizer c (Build var_list) s = Inr (build var_list s)"

fun run :: "variant \<Rightarrow> call list \<Rightarrow> optimizer \<Rightarrow> error + optimizer" where
  "run c [] s = Inr s"
| "run c (e # es) s =
     (case call_optimizer c e s of Inl err \<Rightarrow> Inl err | Inr s' \<Rightarrow> run c es s')"

text \<open>The moment that divides the step: \<open>v_hat\<close> with AMS-grad, \<open>v\<close> without.\<close>

definition v_or_vhat :: "optimizer \<Rightarrow> nat \<Rightarrow> tensor" where
  "v_or_vhat s k =
     (if amsgrad s then (case velocity_hats s of None \<Rightarrow> [] | Some vhs \<Rightarrow> vhs ! k)
      else velocities s ! k)"

text \<open>A step for \<open>var\<close> can run: the variable has been built at position \<open>k\<close> and its
  moments have its shape, \<open>n\<close> entries.\<close>

definition step_ready :: "optimizer \<Rightarrow> variable \<Rightarrow> nat \<Rightarrow> nat \<Rightarrow> bool" where
  "step_ready s var k n \<longleftrightarrow>
     index_dict s (var_key var) = Some k \<and> k < length (momentums s) \<and> k < length (velocities s)
     \<and> length (momentums s ! k) = n \<and> length (velocities s ! k) = n
     \<and> length (var_value var) = n
     \<and> (if amsgrad s
        then (case velocity_hats s of None \<Rightarrow> False
              | Some vhs \<Rightarrow> k < length vhs \<and> length (vhs ! k) = n)
        else True)"

text \<open>A gradient fits a variable of \<open>n\<close> entries: a dense one has \<open>n\<close> entries, a
  sparse one has as many indices as values and every index below \<open>n\<close>.\<close>

fun gradient_fits :: "gradient \<Rightarrow> nat \<Rightarrow> bool" where
  "gradient_fits (Dense g) n \<longleftrightarrow> length g = n"
| "gradient_fits (IndexedSlices vals idxs) n \<longleftrightarrow>
     length idxs = length vals \<and> list_all (\<lambda>i. i < n) idxs"

text \<open>A small optimizer on which the theorems below are exercised: one variable with
  the single entry 1, learning rate 1/10, \<open>chaos_punishment\<close> 1, \<open>beta_1\<close> 1/2,
  \<open>beta_2\<close> 3/4, \<open>epsilon\<close> 1/2, built, and the control signal set to 1/4.\<close>

definition example_var :: variable where
  "example_var = \<lparr>var_key = 0, var_value = [1]\<rparr>"

definition example_init :: "bool \<Rightarrow> optimizer" where
  "example_init ams = Adalpha_init (1 / 10) 1 (1 / 2) (3 / 4) (1 / 2) ams"

definition example_opt :: "bool \<Rightarrow> optimizer" where
  "example_opt ams = update_loss (1 / 4) (build [example_var] (example_init ams))"

text \<open>The dense gradient equivalent to a sparse one, as the specification speaks of
  it: the values at their indices, zero at every other one of the \<open>n\<close> entries.\<close>

definition to_dense :: "nat \<Rightarrow> nat list \<Rightarrow> tensor \<Rightarrow> tensor" where
  "to_dense n idxs vals = scatter_add (replicate n 0) idxs vals"

text \<open>What a list of index and value pairs sends to the index \<open>j\<close>.\<close>

fun seg_sum :: "nat \<Rightarrow> nat list \<Rightarrow> tensor \<Rightarrow> real" where
  "seg_sum j (i # idxs) (u # us) = (if i = j then u else 0) + seg_sum j idxs us"
| "seg_sum j _ _ = 0"

text \<open>A second example: a variable of two entries whose moments are all 1.\<close>

definition example_var2 :: variable where
  "example_var2 = \<lparr>var_key = 0, var_value = [1, 2]\<rparr>"

definition example_opt2 :: "bool \<Rightarrow> optimizer" where
  "example_opt2 ams =
     (build [example_var2] (example_init ams))\<lparr>momentums := [[1, 1]], velocities := [[1, 1]]\<rparr>"

text \<open>The two invariants of the second moments: every entry of every \<open>v\<close> is
  non-negative; and with AMS-grad every \<open>v_hat\<close> exists, has the shape of its \<open>v\<close>
  and is at least \<open>v\<close> entry by entry.\<close>

definition v_nonneg :: "optimizer \<Rightarrow> bool" where
  "v_nonneg s \<longleftrightarrow> list_all (list_all (\<lambda>x. 0 \<le> x)) (velocities s)"

definition vhat_dominates :: "optimizer \<Rightarrow> bool" where
  "vhat_dominates s \<longleftrightarrow>
     (if amsgrad s
      then (case velocity_hats s of None \<Rightarrow> False
            | Some vhs \<Rightarrow> list_all2 (list_all2 (\<le>)) (velocities s) vhs)
      else True)"

text \<open>The second moments at the end of a run, none if it raised.\<close>

definition final_velocities :: "error + optimizer \<Rightarrow> tensor list" where
  "final_velocities r = (case r of Inl e \<Rightarrow> [] | Inr s \<Rightarrow> velocities s)"

text \<open>Consecutive optimizer steps of the base class on one variable with all-zero
  dense gradients: each is the step for the variable followed by the increment of
  the step counter; control signal and learning rate are not touched in between.\<close>

definition zero_gradient :: "variable \<Rightarrow> gradient" where
  "zero_gradient var = Dense (replicate (length (var_value var)) 0)"

fun zero_steps :: "nat \<Rightarrow> variable \<Rightarrow> optimizer \<Rightarrow> error + (variable \<times> optimizer)" where
  "zero_steps 0 var s = Inr (var, s)"
| "zero_steps (Suc n) var s =
     (case zero_steps n var s of
        Inl e \<Rightarrow> Inl e
      | Inr (var1, s1) \<Rightarrow>
          (case update_step (zero_gradient var1) var1 s1 of
             Inl e \<Rightarrow> Inl e
           | Inr (var2, s2) \<Rightarrow> Inr (var2, s2\<lparr>iterations := iterations s2 + 1\<rparr>)))"

text \<open>The parameter that a step or a number of such steps returns (empty if one
  raised), and the delta that step number \<open>n + 1\<close> applies to it.\<close>

definition final_value :: "error + (variable \<times> optimizer) \<Rightarrow> tensor" where
  "final_value r = (case r of Inl e \<Rightarrow> [] | Inr (var, s) \<Rightarrow> var_value var)"

definition zero_step_delta :: "nat \<Rightarrow> variable \<Rightarrow> optimizer \<Rightarrow> tensor" where
  "zero_step_delta n var s =
     tsub (final_value (zero_steps n var s)) (final_value (zero_steps (Suc n) var s))"

text \<open>A default-constructed optimizer that has taken one step with the gradient 1 on
  the one-entry variable: learning rate 0.001, \<open>chaos_punishment\<close> 1, \<open>beta_1\<close> 0.9,
  \<open>beta_2\<close> 0.999, \<open>epsilon\<close> 1e-7, control signal 1.0, \<open>m = 0.1\<close>, \<open>v = 0.001\<close>.\<close>

definition default_after_one_step :: optimizer where
  "default_after_one_step =
     (build [example_var] (Adalpha_init (1 / 1000) 1 (9 / 10) (999 / 1000) (1 / 10 ^ 7) False))
       \<lparr>iterations := 1, momentums := [[1 / 10]], velocities := [[1 / 1000]]\<rparr>"

text \<open>An optimizer with \<open>beta_1 = 0.9\<close> above the square root of \<open>beta_2 = 1/8\<close>,
  control signal 0 and moments \<open>m = v = 1\<close> on the one-entry variable.\<close>

definition fast_decay_opt :: optimizer where
  "fast_decay_opt =
     (build [example_var] (Adalpha_init (1 / 10) 1 (9 / 10) (1 / 8) (1 / 10 ^ 7) False))
       \<lparr>std := 0, momentums := [[1]], velocities := [[1]]\<rparr>"

section \<open>Properties of the momentum activation\<close>

lemma length_m_activ: "length (m_activ x) = length x"
  by (simp add: m_activ_def)

lemma m_activ_nth:
  "i < length x \<Longrightarrow>
   m_activ x ! i =
     x ! i * (2 - divide_no_nan ((x ! i)\<^sup>2 - (0.01 * \<bar>dispersion x\<bar>)\<^sup>2)
                                ((x ! i)\<^sup>2 + 0.1 * (dispersion x)\<^sup>2))\<^sup>2"
  by (simp add: m_activ_def)

lemma quotient_bounds:
  "- (1 / 1000) \<le> divide_no_nan (a\<^sup>2 - (0.01 * \<bar>d\<bar>)\<^sup>2) (a\<^sup>2 + 0.1 * d\<^sup>2)
   \<and> divide_no_nan (a\<^sup>2 - (0.01 * \<bar>d\<bar>)\<^sup>2) (a\<^sup>2 + 0.1 * d\<^sup>2) \<le> 1"
proof -
  define N where "N = a\<^sup>2 - (0.01 * \<bar>d\<bar>)\<^sup>2"
  define D where "D = a\<^sup>2 + 0.1 * d\<^sup>2"
  have N_eq: "N = a\<^sup>2 - d\<^sup>2 / 10000"
    by (simp add: N_def power_mult_distrib power_divide)
  have gen: "\<And>A B :: real. 0 \<le> A \<Longrightarrow> 0 \<le> B \<Longrightarrow>
      - (1 / 1000) * (A + 0.1 * B) \<le> A - B / 10000 \<and> A - B / 10000 \<le> A + 0.1 * B"
    by argo
  have lo: "- (1 / 1000) * D \<le> N" and hi: "N \<le> D"
    unfolding N_eq D_def using gen [of "a\<^sup>2" "d\<^sup>2"] by simp_all
  have nn: "0 \<le> D" by (simp add: D_def)
  have "- (1 / 1000) \<le> divide_no_nan N D \<and> divide_no_nan N D \<le> 1"
  proof (cases "D = 0")
    case True
    then show ?thesis by (simp add: divide_no_nan_def)
  next
    case False
    with nn have pos: "0 < D" by linarith
    have "- (1 / 1000) \<le> N / D"
      using lo pos by (simp add: pos_le_divide_eq)
    moreover have "N / D \<le> 1"
      using hi pos by (simp add: pos_divide_le_eq)
    ultimately show ?thesis using False by (simp add: divide_no_nan_def)
  qed
  then show ?thesis by (simp only: N_def D_def)
qed

text \<open>The factor by which the activation multiplies an entry lies between 1 and
  \<open>2.001\<^sup>2\<close>.\<close>

lemma m_activ_factor:
  assumes "i < length x"
  shows "\<exists>F. 1 \<le> F \<and> F \<le> 4.004001 \<and> m_activ x ! i = x ! i * F"
proof -
  define q where "q = divide_no_nan ((x ! i)\<^sup>2 - (0.01 * \<bar>dispersion x\<bar>)\<^sup>2)
                                     ((x ! i)\<^sup>2 + 0.1 * (dispersion x)\<^sup>2)"
  have qb: "- (1 / 1000) \<le> q" "q \<le> 1"
    using quotient_bounds [of "x ! i" "dispersion x"] by (simp_all add: q_def)
  have eq: "m_activ x ! i = x ! i * (2 - q)\<^sup>2"
    using assms by (simp add: m_activ_nth q_def)
  have b1: "1 \<le> 2 - q" and b2: "2 - q \<le> 2001 / 1000"
    using qb by simp_all
  have "1\<^sup>2 \<le> (2 - q)\<^sup>2"
    using b1 by (intro power_mono) simp_all
  moreover have "(2 - q)\<^sup>2 \<le> (2001 / 1000)\<^sup>2"
    using b1 b2 by (intro power_mono) simp_all
  moreover have "(2001 / 1000 :: real)\<^sup>2 = 4.004001"
    by (simp add: power2_eq_square)
  ultimately show ?thesis using eq by (intro exI [of _ "(2 - q)\<^sup>2"]) simp
qed

lemma m_activ_nonneg: "i < length x \<Longrightarrow> 0 \<le> x ! i \<Longrightarrow> 0 \<le> m_activ x ! i"
  using m_activ_factor [of i x] by (auto simp: mult_nonneg_nonneg)

lemma m_activ_lower: "i < length x \<Longrightarrow> x ! i \<le> 0 \<Longrightarrow> 4.004001 * x ! i \<le> m_activ x ! i"
proof -
  assume a: "i < length x" "x ! i \<le> 0"
  from m_activ_factor [OF a(1)] obtain F where F: "1 \<le> F" "F \<le> 4.004001" "m_activ x ! i = x ! i * F"
    by blast
  have "x ! i * 4.004001 \<le> x ! i * F"
    using F(2) a(2) by (rule mult_left_mono_neg)
  then show ?thesis using F(3) by (simp add: mult.commute)
qed

lemma m_activ_single:
  "m_activ [x] = [x * (2 - divide_no_nan (x\<^sup>2 - (0.01 * \<bar>x\<bar>)\<^sup>2) (x\<^sup>2 + 0.1 * x\<^sup>2))\<^sup>2]"
  by (simp add: m_activ_def dispersion_def reduce_mean_def reduce_std_def)

text \<open>
  C1.  The claim gives the activation as \<open>x * (2 - (x\<^sup>2 - d\<^sup>2) / (x\<^sup>2 + 0.1 d\<^sup>2))\<^sup>2\<close>
  with \<open>d = |mean(x) - std(x)|\<close>.  On the one-entry tensor \<open>[1]\<close> that formula gives 4,
  the code gives \<open>(12001 / 11000)\<^sup>2\<close>.
\<close>

theorem m_activ_counterexample: "m_activ [1] \<noteq> spec_activate [1]"
  by (simp add: m_activ_def dispersion_def spec_activate_def spec_d_def reduce_std_def
      reduce_mean_def divide_no_nan_def power2_eq_square)

text \<open>
  C1, as amended.  For every tensor \<open>x\<close> the activation returns, at each entry \<open>a\<close>,
  \<open>a * (2 - q)\<^sup>2\<close> where \<open>q\<close> is the safe quotient of \<open>a\<^sup>2 - (0.01 d)\<^sup>2\<close> by
  \<open>a\<^sup>2 + 0.1 d\<^sup>2\<close> and \<open>d = ||mean(x)| - std(x)|\<close> is one scalar for the whole tensor
  (population standard deviation).
\<close>

theorem m_activ_formula:
  "m_activ x =
     map (\<lambda>a. a * (2 - divide_no_nan (a\<^sup>2 - (0.01 * \<bar>\<bar>reduce_mean x\<bar> - reduce_std x\<bar>)\<^sup>2)
                                      (a\<^sup>2 + 0.1 * \<bar>\<bar>reduce_mean x\<bar> - reduce_std x\<bar>\<^sup>2))\<^sup>2) x"
  by (simp add: m_activ_def dispersion_def)

section \<open>The activation at the edge of the float range\<close>

lemma float_max_pos: "10 \<le> float_max"
  by (simp add: float_max_def)

lemma length_m_activ_f: "length (m_activ_f x) = length x"
  by (simp add: m_activ_f_def)

lemma divide_no_nan_f_zero: "divide_no_nan_f a (Finite 0) = Finite 0"
  by (simp add: divide_no_nan_f_def)

lemma scaled_square_finite:
  assumes "fsquare (fmul (Finite 0.01) (fabs D)) = Finite e"
  shows "\<exists>d. D = Finite d \<and> \<bar>d\<bar> / 100 \<le> float_max
             \<and> \<bar>d\<bar> / 100 * (\<bar>d\<bar> / 100) \<le> float_max"
  using assms
  by (cases D) (auto simp: fsquare_def ovf_def split: if_splits)

text \<open>The quotient of the activation at an entry 0 when \<open>(0.01 d)\<^sup>2\<close> is finite: 0 if
  \<open>d\<close> is 0 (the safe division), \<open>- 1 / 1000\<close> if \<open>d\<^sup>2\<close> is finite and not 0, and 0 if
  \<open>d\<^sup>2\<close> has overflowed (a finite dividend over an infinite divisor).\<close>

lemma zero_entry_quotient:
  assumes s: "\<bar>d\<bar> / 100 \<le> float_max" and ss: "\<bar>d\<bar> / 100 * (\<bar>d\<bar> / 100) \<le> float_max"
  shows "divide_no_nan_f
           (fsub (fsquare (Finite 0)) (fsquare (fmul (Finite 0.01) (fabs (Finite d)))))
           (fadd (fsquare (Finite 0)) (fmul (Finite 0.1) (fsquare (Finite d))))
         = Finite (if d = 0 then 0 else if d * d \<le> float_max then - (1 / 1000) else 0)"
proof -
  define A where "A = d * d"
  have A: "0 \<le> A" by (simp add: A_def)
  note M = float_max_pos
  have prod: "\<bar>d\<bar> / 100 * (\<bar>d\<bar> / 100) = A / 10000" by (simp add: A_def)
  have B: "A / 10000 \<le> float_max" using ss unfolding prod .
  have sq0: "fsquare (Finite 0) = Finite 0"
    using M by (simp add: fsquare_def ovf_def)
  have small: "fmul (Finite 0.01) (fabs (Finite d)) = Finite (\<bar>d\<bar> / 100)"
    using s M by (simp add: ovf_def)
  have "fsquare (Finite (\<bar>d\<bar> / 100)) = ovf (\<bar>d\<bar> / 100 * (\<bar>d\<bar> / 100))"
    by (simp only: fsquare_def fmul.simps)
  also have "\<dots> = Finite (A / 10000)"
    unfolding prod using A B M by (simp add: ovf_def)
  finally have sqs: "fsquare (Finite (\<bar>d\<bar> / 100)) = Finite (A / 10000)" .
  have "ovf (- (A / 10000)) = Finite (- (A / 10000))"
    using A B M by (simp add: ovf_def)
  then have num: "fsub (fsquare (Finite 0)) (fsquare (fmul (Finite 0.01) (fabs (Finite d))))
           = Finite (- (A / 10000))"
    unfolding sq0 small sqs by (simp add: fsub_def)
  have sqd: "fsquare (Finite d) = ovf A"
    by (simp add: fsquare_def A_def)
  have A0: "A = 0 \<longleftrightarrow> d = 0" by (simp add: A_def)
  show ?thesis
  proof (cases "A \<le> float_max")
    case True
    then have oA: "ovf A = Finite A" using A M by (simp add: ovf_def)
    have tenth: "fmul (Finite 0.1) (Finite A) = Finite (A / 10)"
      using True A M by (simp add: ovf_def)
    have "fadd (Finite 0) (Finite (A / 10)) = Finite (A / 10)"
      using True A M by (simp add: ovf_def)
    then have den: "fadd (fsquare (Finite 0)) (fmul (Finite 0.1) (fsquare (Finite d)))
        = Finite (A / 10)"
      unfolding sq0 sqd oA tenth .
    show ?thesis
    proof (cases "d = 0")
      case True
      with A0 show ?thesis unfolding num den by (simp add: divide_no_nan_f_def)
    next
      case False
      with A0 have nz: "A \<noteq> 0" by simp
      then have q: "- (A / 10000) / (A / 10) = - (1 / 1000)" by simp
      have "ovf (- (1 / 1000)) = Finite (- (1 / 1000))"
        using M by (simp add: ovf_def)
      with nz False \<open>A \<le> float_max\<close> show ?thesis
        unfolding num den by (simp add: divide_no_nan_f_def q A_def)
    qed
  next
    case False
    then have oA: "ovf A = PosInf" by (simp add: ovf_def)
    have den: "fadd (fsquare (Finite 0)) (fmul (Finite 0.1) (fsquare (Finite d))) = PosInf"
      unfolding sq0 sqd oA by simp
    from False A M have "d \<noteq> 0" by (auto simp: A_def)
    with False show ?thesis
      unfolding num den by (simp add: divide_no_nan_f_def A_def)
  qed
qed

lemma zero_entry_result:
  assumes "- 1 \<le> q" "q \<le> 1"
  shows "fmul (Finite 0) (fsquare (fsub (Finite 2) (Finite q))) = Finite 0"
proof -
  note M = float_max_pos
  have a: "fsub (Finite 2) (Finite q) = Finite (2 - q)"
    using assms M by (simp add: fsub_def ovf_def)
  define P where "P = (2 - q) * (2 - q)"
  have "0 \<le> P" by (simp add: P_def)
  moreover have "P \<le> 3 * 3"
    unfolding P_def using assms by (intro mult_mono) simp_all
  ultimately have "ovf P = Finite P"
    using M by (simp add: ovf_def)
  then have b: "fsquare (Finite (2 - q)) = Finite P"
    by (simp add: fsquare_def P_def)
  show ?thesis
    unfolding a b using M by (simp add: ovf_def)
qed

text \<open>
  C6.  The claim has the activation return 0 at every entry where \<open>x\<close> is 0, for
  every tensor.  On the float32 tensor \<open>[0, 0, 0, 1e30]\<close> the squared deviations
  from the mean overflow, so the standard deviation is infinite and with it both
  terms of the quotient; the quotient of two infinities is NaN, which the safe
  division does not catch, and the entry 0 times NaN is NaN.
\<close>

theorem m_activ_f_counterexample:
  "m_activ_f [Finite 0, Finite 0, Finite 0, Finite (10 ^ 30)] ! 0 = NaN"
  by (simp add: m_activ_f_def dispersion_f_def reduce_mean_f_def reduce_std_f_def fsquare_def
      fsub_def divide_no_nan_f_def ovf_def float_max_def)

text \<open>
  C6, as amended.  The activation is total and keeps the shape; at every entry whose
  divisor \<open>x\<^sup>2 + 0.1 d\<^sup>2\<close> is zero the quotient is 0 (the safe division); and for
  every tensor for which \<open>(0.01 d)\<^sup>2\<close>, the term the dividend subtracts, is finite (as
  it is when nothing overflows), the activation returns 0 at every entry where \<open>x\<close>
  is 0.
\<close>

theorem m_activ_f_zero:
  assumes i: "i < length x" and zero: "x ! i = Finite 0"
    and fin: "fsquare (fmul (Finite 0.01) (fabs (dispersion_f x))) = Finite e"
  shows "length (m_activ_f x) = length x
       \<and> m_activ_f x ! i = Finite 0
       \<and> (\<forall>j<length x.
            fadd (fsquare (x ! j)) (fmul (Finite 0.1) (fsquare (dispersion_f x))) = Finite 0
            \<longrightarrow> divide_no_nan_f
                  (fsub (fsquare (x ! j))
                     (fsquare (fmul (Finite 0.01) (fabs (dispersion_f x)))))
                  (fadd (fsquare (x ! j)) (fmul (Finite 0.1) (fsquare (dispersion_f x))))
                = Finite 0)"
proof -
  from scaled_square_finite [OF fin] obtain d where d: "dispersion_f x = Finite d"
    "\<bar>d\<bar> / 100 \<le> float_max" "\<bar>d\<bar> / 100 * (\<bar>d\<bar> / 100) \<le> float_max" by blast
  have "m_activ_f x ! i =
      fmul (x ! i)
        (fsquare
           (fsub (Finite 2)
              (divide_no_nan_f
                 (fsub (fsquare (x ! i)) (fsquare (fmul (Finite 0.01) (fabs (dispersion_f x)))))
                 (fadd (fsquare (x ! i)) (fmul (Finite 0.1) (fsquare (dispersion_f x)))))))"
    using i by (simp only: m_activ_f_def nth_map)
  also have "\<dots> = Finite 0"
    unfolding zero d(1) zero_entry_quotient [OF d(2,3)] by (rule zero_entry_result) simp_all
  finally have "m_activ_f x ! i = Finite 0" .
  then show ?thesis
    by (simp add: length_m_activ_f divide_no_nan_f_zero)
qed

theorem m_activ_f_zero_witness:
  "0 < length [Finite 0, Finite 0] \<and> [Finite 0, Finite 0] ! 0 = Finite 0
   \<and> fsquare (fmul (Finite 0.01) (fabs (dispersion_f [Finite 0, Finite 0]))) = Finite 0
   \<and> fadd (fsquare ([Finite 0, Finite 0] ! 0))
        (fmul (Finite 0.1) (fsquare (dispersion_f [Finite 0, Finite 0]))) = Finite 0
   \<and> fdiv (Finite 0) (Finite 0) = NaN
   \<and> m_activ_f [Finite 0, Finite 0] ! 0 = Finite 0"
proof -
  have d: "dispersion_f [Finite 0, Finite 0] = Finite 0"
    by (simp add: dispersion_f_def reduce_mean_f_def reduce_std_f_def fsquare_def fsub_def
        ovf_def float_max_def)
  have h: "(0 :: nat) < length [Finite 0, Finite 0]" "[Finite 0, Finite 0] ! 0 = Finite 0"
    "fsquare (fmul (Finite 0.01) (fabs (dispersion_f [Finite 0, Finite 0]))) = Finite 0"
    by (simp_all add: d fsquare_def ovf_def float_max_def)
  from m_activ_f_zero [OF h] h d show ?thesis
    by (simp add: fsquare_def ovf_def float_max_def)
qed

text \<open>The condition is the exact one: if \<open>(0.01 d)\<^sup>2\<close> is not finite, an entry 0 gives
  NaN.\<close>

lemma m_activ_f_zero_converse:
  assumes i: "i < length x" and zero: "x ! i = Finite 0"
    and inf: "\<And>e. fsquare (fmul (Finite 0.01) (fabs (dispersion_f x))) \<noteq> Finite e"
  shows "m_activ_f x ! i = NaN"
proof -
  note M = float_max_pos
  have sq0: "fsquare (Finite 0) = Finite 0"
    using M by (simp add: fsquare_def ovf_def)
  have eq: "m_activ_f x ! i =
      fmul (Finite 0)
        (fsquare
           (fsub (Finite 2)
              (divide_no_nan_f
                 (fsub (Finite 0) (fsquare (fmul (Finite 0.01) (fabs (dispersion_f x)))))
                 (fadd (Finite 0) (fmul (Finite 0.1) (fsquare (dispersion_f x)))))))"
    using i by (simp only: m_activ_f_def nth_map zero sq0)
  show ?thesis
  proof (cases "dispersion_f x")
    case (Finite d)
    define A where "A = d * d"
    have A: "0 \<le> A" by (simp add: A_def)
    have prod: "\<bar>d\<bar> / 100 * (\<bar>d\<bar> / 100) = A / 10000" by (simp add: A_def)
    have big: "float_max < A / 10000"
    proof (rule ccontr)
      assume "\<not> float_max < A / 10000"
      then have le: "A / 10000 \<le> float_max" by simp
      have "(\<bar>d\<bar> / 100 - 1 / 2) * (\<bar>d\<bar> / 100 - 1 / 2) \<ge> 0" by simp
      then have "\<bar>d\<bar> / 100 \<le> \<bar>d\<bar> / 100 * (\<bar>d\<bar> / 100) + 1 / 4"
        by (simp add: algebra_simps)
      with prod le M have s: "\<bar>d\<bar> / 100 \<le> float_max + 1 / 4" by simp
      show False
      proof (cases "\<bar>d\<bar> / 100 \<le> float_max")
        case True
        then have "fmul (Finite 0.01) (fabs (Finite d)) = Finite (\<bar>d\<bar> / 100)"
          using M by (simp add: ovf_def)
        moreover have "fsquare (Finite (\<bar>d\<bar> / 100)) = ovf (\<bar>d\<bar> / 100 * (\<bar>d\<bar> / 100))"
          by (simp only: fsquare_def fmul.simps)
        moreover have "ovf (A / 10000) = Finite (A / 10000)"
          using le A M by (simp add: ovf_def)
        ultimately show False using inf [of "A / 10000"] Finite prod by simp
      next
        case False
        then have "float_max < \<bar>d\<bar> / 100" by simp
        moreover have "1 \<le> \<bar>d\<bar> / 100" using calculation M by simp
        then have "\<bar>d\<bar> / 100 * 1 \<le> \<bar>d\<bar> / 100 * (\<bar>d\<bar> / 100)"
          by (intro mult_left_mono) simp_all
        ultimately show False using prod le by simp
      qed
    qed
    have "fsquare (fmul (Finite 0.01) (fabs (dispersion_f x))) = PosInf"
    proof (cases "\<bar>d\<bar> / 100 \<le> float_max")
      case True
      then have "fmul (Finite 0.01) (fabs (Finite d)) = Finite (\<bar>d\<bar> / 100)"
        using M by (simp add: ovf_def)
      moreover have "fsquare (Finite (\<bar>d\<bar> / 100)) = ovf (\<bar>d\<bar> / 100 * (\<bar>d\<bar> / 100))"
        by (simp only: fsquare_def fmul.simps)
      ultimately show ?thesis using big Finite prod by (simp add: ovf_def)
    next
      case False
      then have "fmul (Finite 0.01) (fabs (Finite d)) = PosInf"
        by (simp add: ovf_def)
      then show ?thesis using Finite by (simp add: fsquare_def)
    qed
    moreover have "fsquare (dispersion_f x) = PosInf"
      using big A M Finite by (simp add: fsquare_def ovf_def A_def)
    ultimately show ?thesis
      unfolding eq by (simp add: fsub_def divide_no_nan_f_def fsquare_def)
  next
    case PosInf
    then show ?thesis unfolding eq by (simp add: fsub_def divide_no_nan_f_def fsquare_def)
  next
    case NegInf
    then show ?thesis unfolding eq by (simp add: fsub_def divide_no_nan_f_def fsquare_def)
  next
    case NaN
    then show ?thesis unfolding eq by (simp add: fsub_def divide_no_nan_f_def fsquare_def)
  qed
qed

text \<open>With the plain quotient in the place of the safe one the same entry is NaN.\<close>

lemma plain_quotient_nan:
  "fmul (Finite 0) (fsquare (fsub (Finite 2) (fdiv (Finite 0) (Finite 0)))) = NaN"
  by (simp add: fsquare_def fsub_def)

section \<open>The loss-ratio callback\<close>

text \<open>
  C5.  The claim has the hook update \<open>a\<close> and \<open>b\<close> and overwrite the control signal
  for every batch loss.  With \<open>ema_w = 0.5\<close>, the initial \<open>a = b = 1\<close> and the loss
  \<open>-1\<close>, the new \<open>b\<close> is 0 and the division raises before the signal is written.
\<close>

theorem on_train_batch_end_counterexample:
  "on_train_batch_end [''loss'' \<mapsto> - 1] (Adalpha_Callback_init 0.5 0.99)
     (Adalpha_init 0.001 1 0.9 0.999 0.0000001 False) = Inl ZeroDivisionError"
  by (simp add: on_train_batch_end_def calculate_loss_std_def Adalpha_Callback_init_def)

text \<open>
  C5, as amended.  For every batch loss \<open>l\<close> the hook computes
  \<open>a' = ema_w * l + (1 - ema_w) * a\<close> and \<open>b' = (1 - ema_w) * l + ema_w * b\<close>; when
  \<open>b'\<close> is not zero it stores both and overwrites the optimizer's control signal with
  \<open>change * a' / b'\<close>, the previous signal playing no part; when \<open>b'\<close> is zero it
  raises a division error.
\<close>

theorem on_train_batch_end_formula:
  assumes "logs ''loss'' = Some l"
  shows "on_train_batch_end logs cb opt =
     (if (1 - ema_w cb) * l + ema_w cb * ema_b cb = 0 then Inl ZeroDivisionError
      else Inr (cb\<lparr>loss := l,
                   ema_a := ema_w cb * l + (1 - ema_w cb) * ema_a cb,
                   ema_b := (1 - ema_w cb) * l + ema_w cb * ema_b cb\<rparr>,
                opt\<lparr>std := change cb * (ema_w cb * l + (1 - ema_w cb) * ema_a cb)
                              / ((1 - ema_w cb) * l + ema_w cb * ema_b cb)\<rparr>))"
  using assms
  by (simp add: on_train_batch_end_def calculate_loss_std_def update_loss_def Let_def)

theorem on_train_batch_end_formula_witness:
  "[''loss'' \<mapsto> 2] ''loss'' = Some (2::real)
   \<and> on_train_batch_end [''loss'' \<mapsto> 2] (Adalpha_Callback_init 0.5 0.99)
       (Adalpha_init 0.001 1 0.9 0.999 0.0000001 False) =
     Inr (\<lparr>loss = 2, ema_w = 0.5, change = 0.99, ema_a = 1.5, ema_b = 1.5\<rparr>,
          (Adalpha_init 0.001 1 0.9 0.999 0.0000001 False)\<lparr>std := 0.99\<rparr>)"
  using on_train_batch_end_formula [of "[''loss'' \<mapsto> 2]" 2 "Adalpha_Callback_init 0.5 0.99"
      "Adalpha_init 0.001 1 0.9 0.999 0.0000001 False"]
  by (simp add: Adalpha_Callback_init_def)

section \<open>The end of a step\<close>

lemma assign_sub_step_plain:
  assumes "\<not> amsgrad s" "length m = length v" "length m = length (var_value var)"
  shows "assign_sub_step k m v alpha var s =
     Inr (var\<lparr>var_value := tsub (var_value var)
                 (tdiv (tscale m alpha) (tshift (tf_sqrt v) (epsilon s)))\<rparr>,
          s\<lparr>momentums := (momentums s)[k := m], velocities := (velocities s)[k := v]\<rparr>)"
  using assms by (simp add: assign_sub_step_def Let_def)

lemma assign_sub_step_ams:
  assumes "amsgrad s" "length m = length v" "length m = length (var_value var)"
    and "velocity_hats s = Some vhs" "k < length vhs" "length (vhs ! k) = length v"
  shows "assign_sub_step k m v alpha var s =
     Inr (var\<lparr>var_value := tsub (var_value var)
                 (tdiv (tscale m alpha)
                    (tshift (tf_sqrt (tf_maximum (vhs ! k) v)) (epsilon s)))\<rparr>,
          s\<lparr>momentums := (momentums s)[k := m], velocities := (velocities s)[k := v],
            velocity_hats := Some (vhs[k := tf_maximum (vhs ! k) v])\<rparr>)"
  using assms by (simp add: assign_sub_step_def Let_def)

lemma update_nth:
  "length m = n \<Longrightarrow> length d = n \<Longrightarrow> length p = n \<Longrightarrow> i < n \<Longrightarrow>
   tsub p (tdiv (tscale m alpha) (tshift (tf_sqrt d) e)) ! i
     = p ! i - (m ! i * alpha) / (sqrt (d ! i) + e)"
  by (simp add: tsub_def tdiv_def tscale_def tshift_def tf_sqrt_def)

lemma assign_sub_step_ok:
  assumes "length m = n" "length v = n" "length (var_value var) = n"
    and ams: "if amsgrad s
        then (case velocity_hats s of None \<Rightarrow> False
              | Some vhs \<Rightarrow> k < length vhs \<and> length (vhs ! k) = n)
        else True"
    and "k < length (momentums s)" "k < length (velocities s)"
  shows "\<exists>var' s'. assign_sub_step k m v alpha var s = Inr (var', s')
     \<and> momentums s' ! k = m \<and> velocities s' ! k = v
     \<and> length (var_value var') = n \<and> var_key var' = var_key var
     \<and> length (v_or_vhat s' k) = n
     \<and> v_or_vhat s' k = (if amsgrad s then tf_maximum (v_or_vhat s k) v else v)
     \<and> (\<forall>i<n. var_value var' ! i =
            var_value var ! i - (m ! i * alpha) / (sqrt (v_or_vhat s' k ! i) + epsilon s))"
proof (cases "amsgrad s")
  case False
  show ?thesis
    using assms False
    by (simp add: assign_sub_step_plain v_or_vhat_def update_nth)
       (simp add: tsub_def tdiv_def tscale_def tshift_def tf_sqrt_def)
next
  case True
  with ams obtain vhs
    where vhs: "velocity_hats s = Some vhs" "k < length vhs" "length (vhs ! k) = n"
    by (auto split: option.splits)
  have len: "length (tf_maximum (vhs ! k) v) = n"
    using vhs assms by (simp add: tf_maximum_def)
  show ?thesis
    using assms True vhs len
    by (simp add: assign_sub_step_ams v_or_vhat_def update_nth)
       (simp add: tsub_def tdiv_def tscale_def tshift_def tf_sqrt_def)
qed

lemma length_scatter_add: "length (scatter_add x idxs us) = length x"
  by (induction x idxs us rule: scatter_add.induct) simp_all

lemma example_built:
  "build [example_var] (example_init ams) =
     \<lparr>learning_rate = 1 / 10, beta_1 = 1 / 2, beta_2 = 3 / 4, epsilon = 1 / 2, amsgrad = ams,
      chaos_punish = 1, std = 1, iterations = 0, built = True,
      index_dict = [0 \<mapsto> 0], momentums = [[0]], velocities = [[0]],
      velocity_hats = (if ams then Some [[0]] else None)\<rparr>"
  by (simp add: example_init_def example_var_def build_def base_build_def
      Adalpha_init_def Let_def add_variable_from_reference_def enumerate_eq_zip)

lemma example_opt_eq:
  "example_opt ams =
     \<lparr>learning_rate = 1 / 10, beta_1 = 1 / 2, beta_2 = 3 / 4, epsilon = 1 / 2, amsgrad = ams,
      chaos_punish = 1, std = 1 / 4, iterations = 0, built = True,
      index_dict = [0 \<mapsto> 0], momentums = [[0]], velocities = [[0]],
      velocity_hats = (if ams then Some [[0]] else None)\<rparr>"
  by (simp add: example_opt_def update_loss_def example_built)

lemma example_var_fields: "var_key example_var = 0" "var_value example_var = [1]"
  by (simp_all add: example_var_def)

lemma example_ready: "step_ready (example_opt ams) example_var 0 (Suc 0)"
  by (simp add: step_ready_def example_opt_eq example_var_fields)

section \<open>The base step on a dense gradient\<close>

lemma dense_step_result:
  assumes rdy: "step_ready s var k (length g)"
  shows "\<exists>var' s'. update_step (Dense g) var s = Inr (var', s')
     \<and> length (momentums s' ! k) = length g \<and> length (velocities s' ! k) = length g
     \<and> length (var_value var') = length g
     \<and> (\<forall>i<length g.
          momentums s' ! k ! i
            = momentums s ! k ! i + (g ! i - momentums s ! k ! i) * (1 - beta_1 s)
        \<and> velocities s' ! k ! i
            = velocities s ! k ! i + ((g ! i)\<^sup>2 - velocities s ! k ! i) * (1 - beta_2 s)
        \<and> v_or_vhat s' k ! i
            = (if amsgrad s then max (v_or_vhat s k ! i) (velocities s' ! k ! i)
               else velocities s' ! k ! i)
        \<and> var_value var' ! i
            = var_value var ! i
              - (momentums s' ! k ! i
                 * (learning_rate s * sqrt (1 - beta_2 s ^ (iterations s + 1))
                    / (1 - beta_1 s ^ (iterations s + 1))
                    * (1 - std s * real (chaos_punish s)) ^ chaos_punish s))
                / (sqrt (v_or_vhat s' k ! i) + epsilon s))"
proof -
  define n where "n = length g"
  define m1 where
    "m1 = tadd (momentums s ! k) (tscale (tsub g (momentums s ! k)) (1 - beta_1 s))"
  define v1 where
    "v1 = tadd (velocities s ! k)
            (tscale (tsub (tf_square g) (velocities s ! k)) (1 - beta_2 s))"
  define alpha where "alpha = learning_rate s
       * (sqrt (1 - beta_2 s ^ (iterations s + 1)) / (1 - beta_1 s ^ (iterations s + 1)))
       * (1 - std s * real (chaos_punish s)) ^ chaos_punish s"
  have r: "index_dict s (var_key var) = Some k" "k < length (momentums s)"
    "k < length (velocities s)" "length (momentums s ! k) = n" "length (velocities s ! k) = n"
    "length (var_value var) = n"
    "if amsgrad s
        then (case velocity_hats s of None \<Rightarrow> False
              | Some vhs \<Rightarrow> k < length vhs \<and> length (vhs ! k) = n)
        else True"
    using rdy unfolding step_ready_def n_def by simp_all
  have lm: "length m1 = n" and lv: "length v1 = n"
    using r by (simp_all add: m1_def v1_def tadd_def tscale_def tsub_def tf_square_def n_def)
  have m1_nth: "\<And>i. i < n \<Longrightarrow> m1 ! i
            = momentums s ! k ! i + (g ! i - momentums s ! k ! i) * (1 - beta_1 s)"
    using r by (simp add: m1_def tadd_def tscale_def tsub_def n_def)
  have v1_nth: "\<And>i. i < n \<Longrightarrow> v1 ! i
            = velocities s ! k ! i + ((g ! i)\<^sup>2 - velocities s ! k ! i) * (1 - beta_2 s)"
    using r by (simp add: v1_def tadd_def tscale_def tsub_def tf_square_def n_def)
  have eq: "update_step (Dense g) var s = assign_sub_step k m1 v1 alpha var s"
    using r by (simp add: update_step_def Let_def m1_def v1_def alpha_def n_def)
  from assign_sub_step_ok [OF lm lv r(6) r(7) r(2) r(3), of alpha]
  obtain var' s' where res: "assign_sub_step k m1 v1 alpha var s = Inr (var', s')"
     "momentums s' ! k = m1" "velocities s' ! k = v1"
     "length (var_value var') = n"
     "length (v_or_vhat s' k) = n"
     "v_or_vhat s' k = (if amsgrad s then tf_maximum (v_or_vhat s k) v1 else v1)"
     "\<forall>i<n. var_value var' ! i =
            var_value var ! i - (m1 ! i * alpha) / (sqrt (v_or_vhat s' k ! i) + epsilon s)"
    by blast
  have lold: "amsgrad s \<Longrightarrow> length (v_or_vhat s k) = n"
    using r(7) by (auto simp: v_or_vhat_def split: option.splits)
  have vh_nth: "\<And>i. i < n \<Longrightarrow> v_or_vhat s' k ! i
            = (if amsgrad s then max (v_or_vhat s k ! i) (v1 ! i) else v1 ! i)"
    using res(6) lold lv by (simp add: tf_maximum_def)
  have alpha': "alpha = learning_rate s * sqrt (1 - beta_2 s ^ (iterations s + 1))
                    / (1 - beta_1 s ^ (iterations s + 1))
                    * (1 - std s * real (chaos_punish s)) ^ chaos_punish s"
    by (simp add: alpha_def)
  show ?thesis
    unfolding eq n_def [symmetric] alpha' [symmetric]
    using res lm lv m1_nth v1_nth vh_nth by (intro exI [of _ var'] exI [of _ s']) simp
qed

text \<open>
  C2.  For a dense gradient \<open>g\<close> and a built variable of the same shape, the base step
  returns; at every entry it has moved \<open>m\<close> to \<open>m + (g - m) * (1 - beta_1)\<close> and \<open>v\<close>
  to \<open>v + (g\<^sup>2 - v) * (1 - beta_2)\<close>, with AMS-grad \<open>v_hat\<close> to the maximum of \<open>v_hat\<close>
  and the new \<open>v\<close>, and it has subtracted \<open>(m * alpha) / (sqrt(v_or_vhat) + epsilon)\<close>
  from the parameter, where
  \<open>alpha = lr * sqrt(1 - beta_2^t) / (1 - beta_1^t) * (1 - std * chaos_punish)^chaos_punish\<close>
  and \<open>t = iterations + 1\<close> is the number of the step being taken.
\<close>

theorem update_step_dense:
  assumes rdy: "step_ready s var k (length g)"
  shows "\<exists>var' s'. update_step (Dense g) var s = Inr (var', s')
     \<and> length (momentums s' ! k) = length g \<and> length (velocities s' ! k) = length g
     \<and> length (var_value var') = length g
     \<and> (\<forall>i<length g.
          momentums s' ! k ! i
            = momentums s ! k ! i + (g ! i - momentums s ! k ! i) * (1 - beta_1 s)
        \<and> velocities s' ! k ! i
            = velocities s ! k ! i + ((g ! i)\<^sup>2 - velocities s ! k ! i) * (1 - beta_2 s)
        \<and> v_or_vhat s' k ! i
            = (if amsgrad s then max (v_or_vhat s k ! i) (velocities s' ! k ! i)
               else velocities s' ! k ! i)
        \<and> var_value var' ! i
            = var_value var ! i
              - (momentums s' ! k ! i
                 * (learning_rate s * sqrt (1 - beta_2 s ^ (iterations s + 1))
                    / (1 - beta_1 s ^ (iterations s + 1))
                    * (1 - std s * real (chaos_punish s)) ^ chaos_punish s))
                / (sqrt (v_or_vhat s' k ! i) + epsilon s))"
  using rdy by (rule dense_step_result)

lemma example_vhat: "v_or_vhat (example_opt ams) 0 = [0]"
  by (simp add: v_or_vhat_def example_opt_eq)

theorem update_step_dense_witness:
  "step_ready (example_opt True) example_var 0 (length [1 :: real])
   \<and> (\<exists>var' s'. update_step (Dense [1]) example_var (example_opt True) = Inr (var', s')
        \<and> momentums s' ! 0 ! 0 = 1 / 2 \<and> velocities s' ! 0 ! 0 = 1 / 4
        \<and> v_or_vhat s' 0 ! 0 = 1 / 4 \<and> var_value var' ! 0 = 77 / 80)"
proof -
  let ?s = "example_opt True"
  have rdy: "step_ready ?s example_var 0 (length [1 :: real])"
    by (simp add: example_ready)
  from update_step_dense [OF rdy]
  obtain var' s' where res:
    "update_step (Dense [1]) example_var ?s = Inr (var', s')"
    "\<forall>i<length [1::real].
          momentums s' ! 0 ! i
            = momentums ?s ! 0 ! i + ([1] ! i - momentums ?s ! 0 ! i) * (1 - beta_1 ?s)
        \<and> velocities s' ! 0 ! i
            = velocities ?s ! 0 ! i + (([1] ! i)\<^sup>2 - velocities ?s ! 0 ! i) * (1 - beta_2 ?s)
        \<and> v_or_vhat s' 0 ! i
            = (if amsgrad ?s then max (v_or_vhat ?s 0 ! i) (velocities s' ! 0 ! i)
               else velocities s' ! 0 ! i)
        \<and> var_value var' ! i
            = var_value example_var ! i
              - (momentums s' ! 0 ! i
                 * (learning_rate ?s * sqrt (1 - beta_2 ?s ^ (iterations ?s + 1))
                    / (1 - beta_1 ?s ^ (iterations ?s + 1))
                    * (1 - std ?s * real (chaos_punish ?s)) ^ chaos_punish ?s))
                / (sqrt (v_or_vhat s' 0 ! i) + epsilon ?s)"
    by blast
  have i0: "(0::nat) < length [1::real]" by simp
  note f = res(2) [rule_format, OF i0]
  have m: "momentums s' ! 0 ! 0 = 1 / 2"
    using f [THEN conjunct1] by (simp add: example_opt_eq)
  have v: "velocities s' ! 0 ! 0 = 1 / 4"
    using f [THEN conjunct2, THEN conjunct1] by (simp add: example_opt_eq)
  have vh: "v_or_vhat s' 0 ! 0 = 1 / 4"
    using f [THEN conjunct2, THEN conjunct2, THEN conjunct1] unfolding example_vhat v
    by (simp add: example_opt_eq)
  have p: "var_value var' ! 0 = 77 / 80"
    using f [THEN conjunct2, THEN conjunct2, THEN conjunct2] unfolding m vh
    by (simp add: example_opt_eq example_var_fields real_sqrt_divide)
  from rdy res(1) m v vh p show ?thesis by blast
qed

section \<open>The step scale of the momentum-activated class\<close>

lemma momentum_step_result:
  assumes rdy: "step_ready s var k n" and fits: "gradient_fits g n"
  shows "\<exists>var' s'. update_step_momentum g var s = Inr (var', s')
     \<and> length (var_value var') = n
     \<and> momentums s' ! k =
         (case g of
            Dense d \<Rightarrow>
              tadd (momentums s ! k)
                (m_activ (tscale (tsub d (momentums s ! k)) (1 - beta_1 s)))
          | IndexedSlices vals idxs \<Rightarrow>
              scatter_add
                (tadd (momentums s ! k)
                   (m_activ (tscale (tneg (momentums s ! k)) (1 - beta_1 s))))
                idxs (m_activ (tscale vals (1 - beta_1 s))))
     \<and> velocities s' ! k =
         (case g of
            Dense d \<Rightarrow>
              tadd (velocities s ! k)
                (m_activ (tscale (tsub (tf_square d) (velocities s ! k)) (1 - beta_2 s)))
          | IndexedSlices vals idxs \<Rightarrow>
              scatter_add
                (tadd (velocities s ! k)
                   (m_activ (tscale (tneg (velocities s ! k)) (1 - beta_2 s))))
                idxs (m_activ (tscale (tf_square vals) (1 - beta_2 s))))
     \<and> v_or_vhat s' k =
         (if amsgrad s then tf_maximum (v_or_vhat s k) (velocities s' ! k)
          else velocities s' ! k)
     \<and> (\<forall>i<n. var_value var' ! i
            = var_value var ! i
              - (momentums s' ! k ! i
                 * (learning_rate s * sqrt (1 - beta_2 s ^ (iterations s + 1))
                    / (1 - beta_1 s ^ (iterations s + 1))
                    * std s ^ chaos_punish s))
                / (sqrt (v_or_vhat s' k ! i) + epsilon s))"
proof -
  define alpha where "alpha = learning_rate s
       * (sqrt (1 - beta_2 s ^ (iterations s + 1)) / (1 - beta_1 s ^ (iterations s + 1)))
       * std s ^ chaos_punish s"
  have alpha': "alpha = learning_rate s * sqrt (1 - beta_2 s ^ (iterations s + 1))
                    / (1 - beta_1 s ^ (iterations s + 1)) * std s ^ chaos_punish s"
    by (simp add: alpha_def)
  define m2 where "m2 =
         (case g of
            Dense d \<Rightarrow>
              tadd (momentums s ! k)
                (m_activ (tscale (tsub d (momentums s ! k)) (1 - beta_1 s)))
          | IndexedSlices vals idxs \<Rightarrow>
              scatter_add
                (tadd (momentums s ! k)
                   (m_activ (tscale (tneg (momentums s ! k)) (1 - beta_1 s))))
                idxs (m_activ (tscale vals (1 - beta_1 s))))"
  define v2 where "v2 =
         (case g of
            Dense d \<Rightarrow>
              tadd (velocities s ! k)
                (m_activ (tscale (tsub (tf_square d) (velocities s ! k)) (1 - beta_2 s)))
          | IndexedSlices vals idxs \<Rightarrow>
              scatter_add
                (tadd (velocities s ! k)
                   (m_activ (tscale (tneg (velocities s ! k)) (1 - beta_2 s))))
                idxs (m_activ (tscale (tf_square vals) (1 - beta_2 s))))"
  have r: "index_dict s (var_key var) = Some k" "k < length (momentums s)"
    "k < length (velocities s)" "length (momentums s ! k) = n" "length (velocities s ! k) = n"
    "length (var_value var) = n"
    "if amsgrad s
        then (case velocity_hats s of None \<Rightarrow> False
              | Some vhs \<Rightarrow> k < length vhs \<and> length (vhs ! k) = n)
        else True"
    using rdy unfolding step_ready_def by simp_all
  have mv: "length m2 = n \<and> length v2 = n
          \<and> update_step_momentum g var s = assign_sub_step k m2 v2 alpha var s"
  proof (cases g)
    case (Dense d)
    with fits have ld: "length d = n" by simp
    have "length m2 = n" "length v2 = n"
      using r ld Dense
      by (simp_all add: m2_def v2_def tadd_def length_m_activ tscale_def tsub_def tf_square_def)
    moreover have "update_step_momentum g var s = assign_sub_step k m2 v2 alpha var s"
      using r ld Dense by (simp add: update_step_momentum_def Let_def alpha_def m2_def v2_def)
    ultimately show ?thesis by blast
  next
    case (IndexedSlices vals idxs)
    with fits r have ok:
      "slices_ok (momentums s ! k) idxs vals" "slices_ok (velocities s ! k) idxs vals"
      by (simp_all add: slices_ok_def)
    have "length m2 = n" "length v2 = n"
      using r IndexedSlices
      by (simp_all add: m2_def v2_def length_scatter_add tadd_def length_m_activ tscale_def
          tneg_def)
    moreover have "update_step_momentum g var s = assign_sub_step k m2 v2 alpha var s"
      using r ok IndexedSlices
      by (simp add: update_step_momentum_def Let_def alpha_def m2_def v2_def)
    ultimately show ?thesis by blast
  qed
  from assign_sub_step_ok [OF mv [THEN conjunct1] mv [THEN conjunct2, THEN conjunct1]
      r(6) r(7) r(2) r(3), of alpha]
  obtain var' s' where res: "assign_sub_step k m2 v2 alpha var s = Inr (var', s')"
     "momentums s' ! k = m2" "velocities s' ! k = v2" "length (var_value var') = n"
     "v_or_vhat s' k = (if amsgrad s then tf_maximum (v_or_vhat s k) v2 else v2)"
     "\<forall>i<n. var_value var' ! i =
            var_value var ! i - (m2 ! i * alpha) / (sqrt (v_or_vhat s' k ! i) + epsilon s)"
    by blast
  have eq: "update_step_momentum g var s = Inr (var', s')"
    using mv res(1) by simp
  show ?thesis
    unfolding eq alpha' [symmetric] m2_def [symmetric] v2_def [symmetric]
    using res by (intro exI [of _ var'] exI [of _ s']) simp
qed


text \<open>
  C7.  For a built variable and a gradient that fits it, dense or sparse, the step
  of \<open>AdAlpha_Momentum\<close> returns; its new \<open>m\<close> and \<open>v\<close> are the old ones plus the
  activated terms of the gradient's path, with AMS-grad \<open>v_hat\<close> is the maximum of the
  old \<open>v_hat\<close> and the new \<open>v\<close>; and it subtracts
  \<open>(m * alpha) / (sqrt(v_or_vhat) + epsilon)\<close> from the parameter with
  \<open>alpha = lr * sqrt(1 - beta_2^t) / (1 - beta_1^t) * std^chaos_punish\<close>: the control
  signal itself is raised to the power, not its complement.  On the example, with
  \<open>std = 1/4\<close>, the scale is \<open>1/10 * 1 * 1/4 = 1/40\<close> (the base class would use
  \<open>3/40\<close>) and the parameter moves from 1 to \<open>82449719 / 83640000\<close>.
\<close>

theorem update_step_momentum_alpha:
  assumes rdy: "step_ready s var k n" and fits: "gradient_fits g n"
  shows "\<exists>var' s'. update_step_momentum g var s = Inr (var', s')
     \<and> length (var_value var') = n
     \<and> momentums s' ! k =
         (case g of
            Dense d \<Rightarrow>
              tadd (momentums s ! k)
                (m_activ (tscale (tsub d (momentums s ! k)) (1 - beta_1 s)))
          | IndexedSlices vals idxs \<Rightarrow>
              scatter_add
                (tadd (momentums s ! k)
                   (m_activ (tscale (tneg (momentums s ! k)) (1 - beta_1 s))))
                idxs (m_activ (tscale vals (1 - beta_1 s))))
     \<and> velocities s' ! k =
         (case g of
            Dense d \<Rightarrow>
              tadd (velocities s ! k)
                (m_activ (tscale (tsub (tf_square d) (velocities s ! k)) (1 - beta_2 s)))
          | IndexedSlices vals idxs \<Rightarrow>
              scatter_add
                (tadd (velocities s ! k)
                   (m_activ (tscale (tneg (velocities s ! k)) (1 - beta_2 s))))
                idxs (m_activ (tscale (tf_square vals) (1 - beta_2 s))))
     \<and> v_or_vhat s' k =
         (if amsgrad s then tf_maximum (v_or_vhat s k) (velocities s' ! k)
          else velocities s' ! k)
     \<and> (\<forall>i<n. var_value var' ! i
            = var_value var ! i
              - (momentums s' ! k ! i
                 * (learning_rate s * sqrt (1 - beta_2 s ^ (iterations s + 1))
                    / (1 - beta_1 s ^ (iterations s + 1))
                    * std s ^ chaos_punish s))
                / (sqrt (v_or_vhat s' k ! i) + epsilon s))"
  using rdy fits by (rule momentum_step_result)

theorem update_step_momentum_alpha_witness:
  "step_ready (example_opt False) example_var 0 1
   \<and> gradient_fits (Dense [1]) 1
   \<and> (\<exists>var' s'. update_step_momentum (Dense [1]) example_var (example_opt False)
                  = Inr (var', s')
        \<and> momentums s' ! 0 = [1190281 / 2000000]
        \<and> velocities s' ! 0 = [1190281 / 4000000]
        \<and> v_or_vhat s' 0 = [1190281 / 4000000]
        \<and> var_value var' ! 0 = 82449719 / 83640000)"
proof -
  let ?s = "example_opt False"
  have rdy: "step_ready ?s example_var 0 1"
    using example_ready by simp
  have fits: "gradient_fits (Dense [1]) 1"
    by simp
  from update_step_momentum_alpha [OF rdy fits]
  obtain var' s' where res:
    "update_step_momentum (Dense [1]) example_var ?s = Inr (var', s')"
    and m: "momentums s' ! 0 =
              tadd (momentums ?s ! 0)
                (m_activ (tscale (tsub [1] (momentums ?s ! 0)) (1 - beta_1 ?s)))"
    and v: "velocities s' ! 0 =
              tadd (velocities ?s ! 0)
                (m_activ (tscale (tsub (tf_square [1]) (velocities ?s ! 0)) (1 - beta_2 ?s)))"
    and vh: "v_or_vhat s' 0 =
              (if amsgrad ?s then tf_maximum (v_or_vhat ?s 0) (velocities s' ! 0)
               else velocities s' ! 0)"
    and p: "\<forall>i<1. var_value var' ! i
            = var_value example_var ! i
              - (momentums s' ! 0 ! i
                 * (learning_rate ?s * sqrt (1 - beta_2 ?s ^ (iterations ?s + 1))
                    / (1 - beta_1 ?s ^ (iterations ?s + 1))
                    * std ?s ^ chaos_punish ?s))
                / (sqrt (v_or_vhat s' 0 ! i) + epsilon ?s)"
    by auto
  have m': "momentums s' ! 0 = [1190281 / 2000000]"
    unfolding m
    by (simp add: example_opt_eq tadd_def tsub_def tscale_def m_activ_single divide_no_nan_def
        power2_eq_square)
  have v': "velocities s' ! 0 = [1190281 / 4000000]"
    unfolding v
    by (simp add: example_opt_eq tadd_def tsub_def tscale_def tf_square_def m_activ_single
        divide_no_nan_def power2_eq_square)
  have vh': "v_or_vhat s' 0 = [1190281 / 4000000]"
    unfolding vh v' by (simp add: example_opt_eq)
  have root: "sqrt (1190281 / 4000000) = 1091 / 2000"
    by (rule real_sqrt_unique) (simp_all add: power2_eq_square)
  have p': "var_value var' ! 0 = 82449719 / 83640000"
    using p [rule_format, of 0] unfolding m' vh'
    by (simp add: example_opt_eq example_var_fields real_sqrt_divide root)
  from rdy fits res m' v' vh' p' show ?thesis by blast
qed

section \<open>Scatter-add and the dense equivalent\<close>

lemma scatter_add_nth:
  "length idxs = length us \<Longrightarrow> list_all (\<lambda>i. i < length x) idxs \<Longrightarrow> j < length x \<Longrightarrow>
   scatter_add x idxs us ! j = x ! j + seg_sum j idxs us"
proof (induction x idxs us rule: scatter_add.induct)
  case (1 x i idxs u us)
  then show ?case by (simp add: nth_list_update)
qed simp_all

lemma seg_sum_notin: "j \<notin> set idxs \<Longrightarrow> seg_sum j idxs us = 0"
  by (induction j idxs us rule: seg_sum.induct) auto

lemma seg_sum_scale: "seg_sum j idxs (tscale us c) = seg_sum j idxs us * c"
  by (induction j idxs us rule: seg_sum.induct) (simp_all add: tscale_def algebra_simps)

lemma seg_sum_square:
  "distinct idxs \<Longrightarrow> seg_sum j idxs (tf_square us) = (seg_sum j idxs us)\<^sup>2"
  by (induction j idxs us rule: seg_sum.induct) (auto simp: tf_square_def seg_sum_notin)

lemma to_dense_nth:
  "length idxs = length us \<Longrightarrow> list_all (\<lambda>i. i < n) idxs \<Longrightarrow> j < n \<Longrightarrow>
   to_dense n idxs us ! j = seg_sum j idxs us"
  by (simp add: to_dense_def scatter_add_nth)

lemma length_to_dense: "length (to_dense n idxs us) = n"
  by (simp add: to_dense_def length_scatter_add)

lemma sparse_m_eq:
  assumes "length idxs = length vals" "list_all (\<lambda>i. i < n) idxs" "length m = n"
  shows "scatter_add (tadd m (tscale (tneg m) c)) idxs (tscale vals c)
       = tadd m (tscale (tsub (to_dense n idxs vals) m) c)"
proof (rule nth_equalityI)
  show "length (scatter_add (tadd m (tscale (tneg m) c)) idxs (tscale vals c))
      = length (tadd m (tscale (tsub (to_dense n idxs vals) m) c))"
    using assms
    by (simp add: length_scatter_add tadd_def tscale_def tneg_def tsub_def length_to_dense)
next
  fix j assume "j < length (scatter_add (tadd m (tscale (tneg m) c)) idxs (tscale vals c))"
  then have j: "j < n"
    using assms by (simp add: length_scatter_add tadd_def tscale_def tneg_def)
  have l1: "length (tadd m (tscale (tneg m) c)) = n"
    using assms by (simp add: tadd_def tscale_def tneg_def)
  have "scatter_add (tadd m (tscale (tneg m) c)) idxs (tscale vals c) ! j
      = tadd m (tscale (tneg m) c) ! j + seg_sum j idxs (tscale vals c)"
    using assms j l1 by (intro scatter_add_nth) (simp_all add: tscale_def)
  also have "\<dots> = m ! j + (- (m ! j)) * c + seg_sum j idxs vals * c"
    using assms j by (simp add: tadd_def tscale_def tneg_def seg_sum_scale [unfolded tscale_def])
  also have "\<dots> = tadd m (tscale (tsub (to_dense n idxs vals) m) c) ! j"
    using assms j
    by (simp add: tadd_def tscale_def tsub_def length_to_dense to_dense_nth algebra_simps)
  finally show "scatter_add (tadd m (tscale (tneg m) c)) idxs (tscale vals c) ! j
      = tadd m (tscale (tsub (to_dense n idxs vals) m) c) ! j" .
qed

lemma tf_square_to_dense:
  assumes "length idxs = length vals" "list_all (\<lambda>i. i < n) idxs" "distinct idxs"
  shows "tf_square (to_dense n idxs vals) = to_dense n idxs (tf_square vals)"
proof (rule nth_equalityI)
  show "length (tf_square (to_dense n idxs vals)) = length (to_dense n idxs (tf_square vals))"
    by (simp add: tf_square_def length_to_dense)
next
  fix j assume "j < length (tf_square (to_dense n idxs vals))"
  then have j: "j < n" by (simp add: tf_square_def length_to_dense)
  have "tf_square (to_dense n idxs vals) ! j = (to_dense n idxs vals ! j)\<^sup>2"
    using j by (simp add: tf_square_def length_to_dense)
  also have "\<dots> = (seg_sum j idxs vals)\<^sup>2"
    using assms j by (simp add: to_dense_nth)
  also have "\<dots> = seg_sum j idxs (tf_square vals)"
    using assms by (simp add: seg_sum_square)
  also have "\<dots> = to_dense n idxs (tf_square vals) ! j"
    using assms j by (simp add: to_dense_nth tf_square_def)
  finally show "tf_square (to_dense n idxs vals) ! j = to_dense n idxs (tf_square vals) ! j" .
qed

lemma seg_sum_at:
  "distinct idxs \<Longrightarrow> length idxs = length us \<Longrightarrow> p < length idxs \<Longrightarrow>
   seg_sum (idxs ! p) idxs us = us ! p"
proof (induction idxs arbitrary: us p)
  case Nil
  then show ?case by simp
next
  case (Cons i idxs)
  then obtain u us' where us: "us = u # us'" by (cases us) auto
  show ?case
  proof (cases p)
    case 0
    with Cons us show ?thesis by (simp add: seg_sum_notin)
  next
    case (Suc q)
    with Cons us have "i \<noteq> idxs ! q" by auto
    with Cons us Suc show ?thesis by simp
  qed
qed

lemma sparse_is_dense:
  assumes rdy: "step_ready s var k n"
    and fits: "gradient_fits (IndexedSlices vals idxs) n"
    and dist: "distinct idxs"
  shows "update_step (IndexedSlices vals idxs) var s
       = update_step (Dense (to_dense n idxs vals)) var s"
proof -
  have r: "index_dict s (var_key var) = Some k" "k < length (momentums s)"
    "k < length (velocities s)" "length (momentums s ! k) = n" "length (velocities s ! k) = n"
    using rdy unfolding step_ready_def by simp_all
  have f: "length idxs = length vals" "list_all (\<lambda>i. i < n) idxs"
    using fits by simp_all
  have f2: "length idxs = length (tf_square vals)"
    using f by (simp add: tf_square_def)
  have ok: "slices_ok (momentums s ! k) idxs vals" "slices_ok (velocities s ! k) idxs vals"
    using r f by (simp_all add: slices_ok_def)
  have m: "scatter_add (tadd (momentums s ! k) (tscale (tneg (momentums s ! k)) (1 - beta_1 s)))
             idxs (tscale vals (1 - beta_1 s))
         = tadd (momentums s ! k)
             (tscale (tsub (to_dense n idxs vals) (momentums s ! k)) (1 - beta_1 s))"
    using f r by (intro sparse_m_eq)
  have v: "scatter_add (tadd (velocities s ! k) (tscale (tneg (velocities s ! k)) (1 - beta_2 s)))
             idxs (tscale (tf_square vals) (1 - beta_2 s))
         = tadd (velocities s ! k)
             (tscale (tsub (tf_square (to_dense n idxs vals)) (velocities s ! k)) (1 - beta_2 s))"
    unfolding tf_square_to_dense [OF f dist]
    using f2 f(2) r(5) by (intro sparse_m_eq)
  show ?thesis
    using r ok by (simp add: update_step_def Let_def m v length_to_dense)
qed

lemma example2_built:
  "example_opt2 ams =
     \<lparr>learning_rate = 1 / 10, beta_1 = 1 / 2, beta_2 = 3 / 4, epsilon = 1 / 2, amsgrad = ams,
      chaos_punish = 1, std = 1, iterations = 0, built = True,
      index_dict = [0 \<mapsto> 0], momentums = [[1, 1]], velocities = [[1, 1]],
      velocity_hats = (if ams then Some [[0, 0]] else None)\<rparr>"
  by (simp add: example_opt2_def example_init_def example_var2_def build_def base_build_def
      Adalpha_init_def Let_def add_variable_from_reference_def enumerate_eq_zip)

lemma example_var2_fields: "var_key example_var2 = 0" "var_value example_var2 = [1, 2]"
  by (simp_all add: example_var2_def)

lemma example2_ready: "step_ready (example_opt2 ams) example_var2 0 2"
  by (simp add: step_ready_def example2_built example_var2_fields)

text \<open>
  C3.  For a sparse gradient whose indices are pairwise distinct (an index set) and
  inside a built variable, the base step on the sparse path returns exactly what the
  dense path returns on the dense-equivalent gradient, which carries each value at
  its index.  So at every touched index \<open>m\<close> and \<open>v\<close> are what the dense formulas give
  there, and at every untouched index they only decay, to \<open>beta_1 * m\<close> and
  \<open>beta_2 * v\<close>.
\<close>

theorem sparse_step_matches_dense:
  assumes rdy: "step_ready s var k n"
    and fits: "gradient_fits (IndexedSlices vals idxs) n"
    and dist: "distinct idxs"
  shows "\<exists>var' s'. update_step (IndexedSlices vals idxs) var s = Inr (var', s')
     \<and> update_step (Dense (to_dense n idxs vals)) var s = Inr (var', s')
     \<and> (\<forall>p<length idxs. to_dense n idxs vals ! (idxs ! p) = vals ! p)
     \<and> (\<forall>j<n.
          (j \<in> set idxs \<longrightarrow>
             momentums s' ! k ! j
               = momentums s ! k ! j
                 + (to_dense n idxs vals ! j - momentums s ! k ! j) * (1 - beta_1 s)
           \<and> velocities s' ! k ! j
               = velocities s ! k ! j
                 + ((to_dense n idxs vals ! j)\<^sup>2 - velocities s ! k ! j) * (1 - beta_2 s))
        \<and> (j \<notin> set idxs \<longrightarrow>
             momentums s' ! k ! j = beta_1 s * momentums s ! k ! j
           \<and> velocities s' ! k ! j = beta_2 s * velocities s ! k ! j))"
proof -
  let ?g = "to_dense n idxs vals"
  have f: "length idxs = length vals" "list_all (\<lambda>i. i < n) idxs"
    using fits by simp_all
  have rdy': "step_ready s var k (length ?g)"
    using rdy by (simp add: length_to_dense)
  from dense_step_result [OF rdy']
  obtain var' s' where res: "update_step (Dense ?g) var s = Inr (var', s')"
    and nth: "\<And>i. i < n \<Longrightarrow>
          momentums s' ! k ! i
            = momentums s ! k ! i + (?g ! i - momentums s ! k ! i) * (1 - beta_1 s)
        \<and> velocities s' ! k ! i
            = velocities s ! k ! i + ((?g ! i)\<^sup>2 - velocities s ! k ! i) * (1 - beta_2 s)"
    unfolding length_to_dense by blast
  have zero: "\<And>j. j < n \<Longrightarrow> j \<notin> set idxs \<Longrightarrow> ?g ! j = 0"
    using f by (simp add: to_dense_nth seg_sum_notin)
  have at: "\<And>p. p < length idxs \<Longrightarrow> ?g ! (idxs ! p) = vals ! p"
  proof -
    fix p assume p: "p < length idxs"
    with f(2) have "idxs ! p < n" by (simp add: list_all_length)
    with f p dist show "?g ! (idxs ! p) = vals ! p"
      by (simp add: to_dense_nth seg_sum_at)
  qed
  have untouched: "\<And>j. j < n \<Longrightarrow> j \<notin> set idxs \<Longrightarrow>
        momentums s' ! k ! j = beta_1 s * momentums s ! k ! j
      \<and> velocities s' ! k ! j = beta_2 s * velocities s ! k ! j"
  proof -
    fix j assume j: "j < n" "j \<notin> set idxs"
    from nth [OF j(1)] zero [OF j] show
      "momentums s' ! k ! j = beta_1 s * momentums s ! k ! j
      \<and> velocities s' ! k ! j = beta_2 s * velocities s ! k ! j"
      by (simp add: algebra_simps)
  qed
  show ?thesis
    unfolding sparse_is_dense [OF rdy fits dist]
    using res nth at untouched by (intro exI [of _ var'] exI [of _ s']) simp
qed

theorem sparse_step_matches_dense_witness:
  "step_ready (example_opt2 False) example_var2 0 2
   \<and> gradient_fits (IndexedSlices [3] [0]) 2 \<and> distinct [0 :: nat]
   \<and> 0 \<in> set [0 :: nat] \<and> 1 \<notin> set [0 :: nat]
   \<and> to_dense 2 [0] [3] = [3, 0]
   \<and> (\<exists>var' s'. update_step (IndexedSlices [3] [0]) example_var2 (example_opt2 False)
                  = Inr (var', s')
        \<and> update_step (Dense [3, 0]) example_var2 (example_opt2 False) = Inr (var', s')
        \<and> momentums s' ! 0 ! 0 = 2 \<and> velocities s' ! 0 ! 0 = 3
        \<and> momentums s' ! 0 ! 1 = 1 / 2 \<and> velocities s' ! 0 ! 1 = 3 / 4)"
proof -
  let ?s = "example_opt2 False"
  have rdy: "step_ready ?s example_var2 0 2" by (rule example2_ready)
  have fits: "gradient_fits (IndexedSlices [3] [0]) 2" by simp
  have dist: "distinct [0 :: nat]" by simp
  have td: "to_dense 2 [0] [3] = [3, 0]"
    by (simp add: to_dense_def numeral_2_eq_2)
  from sparse_step_matches_dense [OF rdy fits dist, unfolded td]
  obtain var' s' where res:
    "update_step (IndexedSlices [3] [0]) example_var2 ?s = Inr (var', s')"
    "update_step (Dense [3, 0]) example_var2 ?s = Inr (var', s')"
    and nth: "\<forall>j<2.
          (j \<in> set [0] \<longrightarrow>
             momentums s' ! 0 ! j
               = momentums ?s ! 0 ! j + ([3, 0] ! j - momentums ?s ! 0 ! j) * (1 - beta_1 ?s)
           \<and> velocities s' ! 0 ! j
               = velocities ?s ! 0 ! j + (([3, 0] ! j)\<^sup>2 - velocities ?s ! 0 ! j) * (1 - beta_2 ?s))
        \<and> (j \<notin> set [0] \<longrightarrow>
             momentums s' ! 0 ! j = beta_1 ?s * momentums ?s ! 0 ! j
           \<and> velocities s' ! 0 ! j = beta_2 ?s * velocities ?s ! 0 ! j)"
    by blast
  have a: "momentums s' ! 0 ! 0 = 2 \<and> velocities s' ! 0 ! 0 = 3"
    using nth [rule_format, of 0] by (simp add: example2_built)
  have b: "momentums s' ! 0 ! 1 = 1 / 2 \<and> velocities s' ! 0 ! 1 = 3 / 4"
    using nth [rule_format, of 1] by (simp add: example2_built)
  from rdy fits td res a b show ?thesis by simp
qed

text \<open>With a repeated index the two paths part: the sparse one adds the squares of
  the values to \<open>v\<close>, the dense one the square of their sum.\<close>

lemma repeated_index_differs: "update_step (IndexedSlices [1, 1] [0, 0]) example_var (example_opt False)
    \<noteq> update_step (Dense (to_dense 1 [0, 0] [1, 1])) example_var (example_opt False)"
  by (simp add: update_step_def example_opt_eq example_var_fields assign_sub_step_def Let_def
      slices_ok_def to_dense_def tadd_def tsub_def tscale_def tneg_def tf_square_def)

section \<open>What a step leaves alone\<close>


lemma assign_sub_step_frame:
  "assign_sub_step k m v alpha var s = Inr (var', s') \<Longrightarrow>
   std s' = std s \<and> built s' = built s \<and> beta_2 s' = beta_2 s \<and> amsgrad s' = amsgrad s
   \<and> beta_1 s' = beta_1 s \<and> index_dict s' = index_dict s \<and> iterations s' = iterations s
   \<and> learning_rate s' = learning_rate s \<and> epsilon s' = epsilon s
   \<and> chaos_punish s' = chaos_punish s"
  by (auto simp: assign_sub_step_def Let_def split: if_splits option.splits)

lemma update_step_frame:
  "update_step g var s = Inr (var', s') \<Longrightarrow>
   std s' = std s \<and> built s' = built s \<and> beta_2 s' = beta_2 s \<and> amsgrad s' = amsgrad s
   \<and> beta_1 s' = beta_1 s \<and> index_dict s' = index_dict s \<and> iterations s' = iterations s
   \<and> learning_rate s' = learning_rate s \<and> epsilon s' = epsilon s
   \<and> chaos_punish s' = chaos_punish s"
  unfolding update_step_def Let_def
  by (auto split: option.splits if_splits gradient.splits dest!: assign_sub_step_frame)

lemma update_step_momentum_frame:
  "update_step_momentum g var s = Inr (var', s') \<Longrightarrow>
   std s' = std s \<and> built s' = built s \<and> beta_2 s' = beta_2 s \<and> amsgrad s' = amsgrad s
   \<and> beta_1 s' = beta_1 s \<and> index_dict s' = index_dict s \<and> iterations s' = iterations s
   \<and> learning_rate s' = learning_rate s \<and> epsilon s' = epsilon s
   \<and> chaos_punish s' = chaos_punish s"
  unfolding update_step_momentum_def Let_def
  by (auto split: option.splits if_splits gradient.splits dest!: assign_sub_step_frame)

lemma step_frame:
  "step c g var s = Inr (var', s') \<Longrightarrow>
   std s' = std s \<and> built s' = built s \<and> beta_2 s' = beta_2 s \<and> amsgrad s' = amsgrad s
   \<and> beta_1 s' = beta_1 s \<and> index_dict s' = index_dict s \<and> iterations s' = iterations s
   \<and> learning_rate s' = learning_rate s \<and> epsilon s' = epsilon s
   \<and> chaos_punish s' = chaos_punish s"
  by (cases c) (simp_all add: step_def update_step_frame update_step_momentum_frame)

lemma build_built: "built (build var_list s)"
  by (simp add: build_def base_build_def Let_def)

lemma build_when_built: "built s \<Longrightarrow> build var_list s = s"
  by (simp add: build_def base_build_def Let_def)

lemma call_optimizer_built:
  "call_optimizer c e s = Inr s' \<Longrightarrow> built s \<Longrightarrow> built s'"
  by (cases e) (auto simp: update_loss_def build_when_built split: sum.splits dest: step_frame)

lemma run_built: "run c es s = Inr s' \<Longrightarrow> built s \<Longrightarrow> built s'"
proof (induction es arbitrary: s)
  case Nil
  then show ?case by simp
next
  case (Cons e es)
  then show ?case
    by (auto split: sum.splits dest: call_optimizer_built)
qed

section \<open>The constant callback\<close>




section \<open>Building twice\<close>

lemma example_run:
  "run Base [Update (Dense [1]) example_var, Iterate] (build [example_var] (example_init True))
   = Inr \<lparr>learning_rate = 1 / 10, beta_1 = 1 / 2, beta_2 = 3 / 4, epsilon = 1 / 2,
      amsgrad = True, chaos_punish = 1, std = 1, iterations = 1, built = True,
      index_dict = [0 \<mapsto> 0], momentums = [[1 / 2]], velocities = [[1 / 4]],
      velocity_hats = Some [[1 / 4]]\<rparr>"
  by (simp add: example_built step_def update_step_def example_var_fields assign_sub_step_def
      Let_def tadd_def tsub_def tscale_def tf_square_def tf_maximum_def)

text \<open>
  C9.  A second \<open>build\<close> with the same parameter list returns the optimizer as the
  first one left it, and after any run of steps, counter increments, signal updates
  and further builds a \<open>build\<close> still changes nothing: \<open>m\<close>, \<open>v\<close> and \<open>v_hat\<close> keep
  their values.
\<close>

theorem build_idempotent:
  "build var_list (build var_list s) = build var_list s
   \<and> (\<forall>c calls s'. run c calls (build var_list s) = Inr s' \<longrightarrow> build var_list s' = s')"
  using build_built [of var_list s]
  by (auto simp: build_when_built dest: run_built)

theorem build_idempotent_witness:
  "\<exists>s'. run Base [Update (Dense [1]) example_var, Iterate]
           (build [example_var] (example_init True)) = Inr s'
        \<and> momentums s' = [[1 / 2]] \<and> velocities s' = [[1 / 4]]
        \<and> velocity_hats s' = Some [[1 / 4]]
        \<and> build [example_var] s' = s'"
  using build_idempotent [of "[example_var]" "example_init True", THEN conjunct2, rule_format,
      OF example_run] example_run
  by simp

section \<open>The invariants of the second moments\<close>

lemma list_all_update:
  "list_all P xs \<Longrightarrow> P x \<Longrightarrow> list_all P (xs[k := x])"
  using set_update_subset_insert [of xs k x] by (auto simp: list_all_iff)

lemma le_tf_maximum:
  "length vh = length v \<Longrightarrow> list_all2 (\<le>) v (tf_maximum vh v)"
  by (simp add: tf_maximum_def list_all2_conv_all_nth)

lemma assign_sub_step_nonneg:
  assumes "assign_sub_step k m v alpha var s = Inr (var', s')"
    and "v_nonneg s" and "list_all (\<lambda>x. 0 \<le> x) v"
  shows "v_nonneg s'"
  using assms
  by (auto simp: assign_sub_step_def Let_def v_nonneg_def list_all_update
      split: if_splits option.splits)

lemma assign_sub_step_vhat:
  assumes "assign_sub_step k m v alpha var s = Inr (var', s')" and "vhat_dominates s"
  shows "vhat_dominates s'"
proof (cases "amsgrad s")
  case False
  with assms show ?thesis
    by (auto simp: assign_sub_step_def Let_def vhat_dominates_def split: if_splits)
next
  case True
  with assms obtain vhs where vhs: "velocity_hats s = Some vhs"
    "list_all2 (list_all2 (\<le>)) (velocities s) vhs"
    by (auto simp: vhat_dominates_def split: option.splits)
  from assms True vhs have len: "length (vhs ! k) = length v"
    and s': "s' = s\<lparr>momentums := (momentums s)[k := m], velocities := (velocities s)[k := v],
            velocity_hats := Some (vhs[k := tf_maximum (vhs ! k) v])\<rparr>"
    by (auto simp: assign_sub_step_def Let_def split: if_splits)
  have "list_all2 (list_all2 (\<le>)) ((velocities s)[k := v]) (vhs[k := tf_maximum (vhs ! k) v])"
    using vhs(2) le_tf_maximum [OF len] by (rule list_all2_update_cong)
  with True show ?thesis
    by (simp add: s' vhat_dominates_def)
qed

lemma step_vhat:
  assumes "step c g var s = Inr (var', s')" and "vhat_dominates s"
  shows "vhat_dominates s'"
proof (cases c)
  case Base
  with assms show ?thesis
    unfolding step_def update_step_def Let_def
    by (auto split: option.splits if_splits gradient.splits elim: assign_sub_step_vhat)
next
  case Momentum
  with assms show ?thesis
    unfolding step_def update_step_momentum_def Let_def
    by (auto split: option.splits if_splits gradient.splits elim: assign_sub_step_vhat)
qed

lemma scatter_add_nonneg:
  "list_all (\<lambda>x. 0 \<le> x) x \<Longrightarrow> list_all (\<lambda>x. 0 \<le> x) us \<Longrightarrow>
   list_all (\<lambda>x. 0 \<le> x) (scatter_add x idxs us)"
proof (induction x idxs us rule: scatter_add.induct)
  case (1 x i idxs u us)
  have "list_all (\<lambda>x. 0 \<le> x) (x[i := x ! i + u])"
  proof (cases "i < length x")
    case True
    with "1.prems"(1) have "0 \<le> x ! i" by (simp add: list_all_length)
    with "1.prems" show ?thesis by (simp add: list_all_update)
  next
    case False
    then have "x[i := x ! i + u] = x" by (simp add: list_update_beyond)
    with "1.prems"(1) show ?thesis by simp
  qed
  with 1 show ?case by simp
qed simp_all

lemma m_activ_all_nonneg:
  "list_all (\<lambda>x. 0 \<le> x) x \<Longrightarrow> list_all (\<lambda>x. 0 \<le> x) (m_activ x)"
  by (simp add: list_all_length length_m_activ m_activ_nonneg)

lemma base_dense_v_nonneg:
  assumes "0 \<le> b" "b \<le> 1" "list_all (\<lambda>x. 0 \<le> x) v" "length g = length v"
  shows "list_all (\<lambda>x. 0 \<le> x) (tadd v (tscale (tsub (tf_square g) v) (1 - b)))"
proof -
  have "\<And>i. i < length v \<Longrightarrow> 0 \<le> v ! i + ((g ! i)\<^sup>2 - v ! i) * (1 - b)"
  proof -
    fix i assume "i < length v"
    with assms(3) have vi: "0 \<le> v ! i" by (simp add: list_all_length)
    have "v ! i + ((g ! i)\<^sup>2 - v ! i) * (1 - b) = b * v ! i + (1 - b) * (g ! i)\<^sup>2"
      by (simp add: algebra_simps)
    moreover have "0 \<le> b * v ! i" using assms(1) vi by simp
    moreover have "0 \<le> (1 - b) * (g ! i)\<^sup>2" using assms(2) by simp
    ultimately show "0 \<le> v ! i + ((g ! i)\<^sup>2 - v ! i) * (1 - b)" by linarith
  qed
  then show ?thesis
    using assms(4) by (simp add: list_all_length tadd_def tscale_def tsub_def tf_square_def)
qed

lemma base_decay_v_nonneg:
  assumes "0 \<le> b" "list_all (\<lambda>x. 0 \<le> x) v"
  shows "list_all (\<lambda>x. 0 \<le> x) (tadd v (tscale (tneg v) (1 - b)))"
proof -
  have "\<And>i. i < length v \<Longrightarrow> 0 \<le> v ! i + (- (v ! i)) * (1 - b)"
  proof -
    fix i assume "i < length v"
    with assms(2) have vi: "0 \<le> v ! i" by (simp add: list_all_length)
    have "v ! i + (- (v ! i)) * (1 - b) = b * v ! i" by (simp add: algebra_simps)
    then show "0 \<le> v ! i + (- (v ! i)) * (1 - b)" using assms(1) vi by simp
  qed
  then show ?thesis
    by (simp add: list_all_length tadd_def tscale_def tneg_def)
qed

text \<open>An activated term added to a non-negative entry: if the raw term is at least
  \<open>- v * (1 - b)\<close> and the activation stretches it by at most 4.004001, the sum stays
  non-negative as long as \<open>4.004001 * (1 - b) \<le> 1\<close>.\<close>

lemma activated_entry_nonneg:
  assumes b: "b \<le> 1" "4.004001 * (1 - b) \<le> 1" and v: "0 \<le> (v :: real)"
    and lower: "- (v * (1 - b)) \<le> X"
    and neg: "X \<le> 0 \<Longrightarrow> 4.004001 * X \<le> A" and pos: "0 \<le> X \<Longrightarrow> 0 \<le> A"
  shows "0 \<le> v + A"
proof (cases "0 \<le> X")
  case True
  with pos v show ?thesis by simp
next
  case False
  then have "4.004001 * X \<le> A" using neg by simp
  moreover have "4.004001 * (- (v * (1 - b))) \<le> 4.004001 * X"
    using lower by simp
  moreover have "v * (4.004001 * (1 - b)) \<le> v * 1"
    using b(2) v by (rule mult_left_mono)
  ultimately show ?thesis by (simp add: algebra_simps)
qed

lemma momentum_v_nonneg:
  assumes b: "0 \<le> b" "b \<le> 1" "4.004001 * (1 - b) \<le> 1"
    and v: "list_all (\<lambda>x. 0 \<le> x) v" and len: "length X = length v"
    and lower: "\<And>i. i < length v \<Longrightarrow> - (v ! i * (1 - b)) \<le> X ! i"
  shows "list_all (\<lambda>x. 0 \<le> x) (tadd v (m_activ X))"
proof -
  have "\<And>i. i < length v \<Longrightarrow> 0 \<le> v ! i + m_activ X ! i"
  proof -
    fix i assume i: "i < length v"
    with v have vi: "0 \<le> v ! i" by (simp add: list_all_length)
    from i len have iX: "i < length X" by simp
    show "0 \<le> v ! i + m_activ X ! i"
      using b(2,3) vi lower [OF i] m_activ_lower [OF iX] m_activ_nonneg [OF iX]
      by (rule activated_entry_nonneg)
  qed
  then show ?thesis
    using len by (simp add: list_all_length tadd_def length_m_activ)
qed

lemma velocity_nonneg:
  "v_nonneg s \<Longrightarrow> k < length (velocities s) \<Longrightarrow> list_all (\<lambda>x. 0 \<le> x) (velocities s ! k)"
  by (simp add: v_nonneg_def list_all_length)

lemma update_step_nonneg:
  assumes step: "update_step g var s = Inr (var', s')"
    and inv: "v_nonneg s" and b: "0 \<le> beta_2 s" "beta_2 s \<le> 1"
  shows "v_nonneg s'"
proof -
  from step obtain k where k: "index_dict s (var_key var) = Some k"
    "k < length (momentums s)" "k < length (velocities s)"
    by (auto simp: update_step_def Let_def split: option.splits if_splits)
  let ?v = "velocities s ! k"
  have v: "list_all (\<lambda>x. 0 \<le> x) ?v"
    using inv k(3) by (rule velocity_nonneg)
  show ?thesis
  proof (cases g)
    case (Dense d)
    with step k have len: "length d = length ?v"
      by (auto simp: update_step_def Let_def split: if_splits)
    have "list_all (\<lambda>x. 0 \<le> x) (tadd ?v (tscale (tsub (tf_square d) ?v) (1 - beta_2 s)))"
      using b v len by (rule base_dense_v_nonneg)
    with step k Dense inv show ?thesis
      by (auto simp: update_step_def Let_def split: if_splits elim: assign_sub_step_nonneg)
  next
    case (IndexedSlices vals idxs)
    have "list_all (\<lambda>x. 0 \<le> x) (tadd ?v (tscale (tneg ?v) (1 - beta_2 s)))"
      using b(1) v by (rule base_decay_v_nonneg)
    moreover have "list_all (\<lambda>x. 0 \<le> x) (tscale (tf_square vals) (1 - beta_2 s))"
      using b(2) by (simp add: list_all_length tscale_def tf_square_def)
    ultimately have "list_all (\<lambda>x. 0 \<le> x)
        (scatter_add (tadd ?v (tscale (tneg ?v) (1 - beta_2 s))) idxs
           (tscale (tf_square vals) (1 - beta_2 s)))"
      by (rule scatter_add_nonneg)
    with step k IndexedSlices inv show ?thesis
      by (auto simp: update_step_def Let_def split: if_splits elim: assign_sub_step_nonneg)
  qed
qed

lemma update_step_momentum_nonneg:
  assumes step: "update_step_momentum g var s = Inr (var', s')"
    and inv: "v_nonneg s"
    and b: "0 \<le> beta_2 s" "beta_2 s \<le> 1" "4.004001 * (1 - beta_2 s) \<le> 1"
  shows "v_nonneg s'"
proof -
  from step obtain k where k: "index_dict s (var_key var) = Some k"
    "k < length (momentums s)" "k < length (velocities s)"
    by (auto simp: update_step_momentum_def Let_def split: option.splits if_splits)
  let ?v = "velocities s ! k"
  let ?c = "1 - beta_2 s"
  have v: "list_all (\<lambda>x. 0 \<le> x) ?v"
    using inv k(3) by (rule velocity_nonneg)
  show ?thesis
  proof (cases g)
    case (Dense d)
    with step k have len: "length d = length ?v"
      by (auto simp: update_step_momentum_def Let_def split: if_splits)
    have lenX: "length (tscale (tsub (tf_square d) ?v) ?c) = length ?v"
      using len by (simp add: tscale_def tsub_def tf_square_def)
    have lower: "\<And>i. i < length ?v \<Longrightarrow>
        - (?v ! i * ?c) \<le> tscale (tsub (tf_square d) ?v) ?c ! i"
    proof -
      fix i assume i: "i < length ?v"
      have "0 \<le> (d ! i)\<^sup>2 * ?c" using b(2) by simp
      then show "- (?v ! i * ?c) \<le> tscale (tsub (tf_square d) ?v) ?c ! i"
        using i len by (simp add: tscale_def tsub_def tf_square_def algebra_simps)
    qed
    have "list_all (\<lambda>x. 0 \<le> x) (tadd ?v (m_activ (tscale (tsub (tf_square d) ?v) ?c)))"
      using b v lenX lower by (rule momentum_v_nonneg)
    with step k Dense inv show ?thesis
      by (auto simp: update_step_momentum_def Let_def split: if_splits
          elim: assign_sub_step_nonneg)
  next
    case (IndexedSlices vals idxs)
    have lenX: "length (tscale (tneg ?v) ?c) = length ?v"
      by (simp add: tscale_def tneg_def)
    have lower: "\<And>i. i < length ?v \<Longrightarrow> - (?v ! i * ?c) \<le> tscale (tneg ?v) ?c ! i"
      by (simp add: tscale_def tneg_def)
    have "list_all (\<lambda>x. 0 \<le> x) (tadd ?v (m_activ (tscale (tneg ?v) ?c)))"
      using b v lenX lower by (rule momentum_v_nonneg)
    moreover have "list_all (\<lambda>x. 0 \<le> x) (tscale (tf_square vals) ?c)"
      using b(2) by (simp add: list_all_length tscale_def tf_square_def)
    then have "list_all (\<lambda>x. 0 \<le> x) (m_activ (tscale (tf_square vals) ?c))"
      by (rule m_activ_all_nonneg)
    ultimately have "list_all (\<lambda>x. 0 \<le> x)
        (scatter_add (tadd ?v (m_activ (tscale (tneg ?v) ?c))) idxs
           (m_activ (tscale (tf_square vals) ?c)))"
      by (rule scatter_add_nonneg)
    with step k IndexedSlices inv show ?thesis
      by (auto simp: update_step_momentum_def Let_def split: if_splits
          elim: assign_sub_step_nonneg)
  qed
qed

lemma build_zero:
  "\<not> built s \<Longrightarrow> v_nonneg (build var_list s) \<and> vhat_dominates (build var_list s)"
  by (simp add: build_def base_build_def Let_def v_nonneg_def vhat_dominates_def
      list_all_length add_variable_from_reference_def list_all2_conv_all_nth)

lemma build_frame:
  "beta_2 (build var_list s) = beta_2 s \<and> amsgrad (build var_list s) = amsgrad s"
  by (simp add: build_def base_build_def Let_def)

lemma call_optimizer_vhat:
  assumes "call_optimizer c e s = Inr s'" and "built s" "vhat_dominates s"
  shows "built s' \<and> vhat_dominates s' \<and> amsgrad s' = amsgrad s"
proof (cases e)
  case (Update g var)
  with assms(1) obtain var' where st: "step c g var s = Inr (var', s')"
    by (auto split: sum.splits)
  from step_vhat [OF st assms(3)] step_frame [OF st] assms(2) show ?thesis by simp
next
  case Iterate
  with assms show ?thesis by (auto simp: vhat_dominates_def split: option.splits)
next
  case (UpdateLoss x)
  with assms show ?thesis
    by (auto simp: vhat_dominates_def update_loss_def split: option.splits)
next
  case (Build var_list)
  with assms show ?thesis by (auto simp: build_when_built)
qed

lemma run_vhat:
  assumes "run c calls s = Inr s'" and "built s" "vhat_dominates s"
  shows "vhat_dominates s' \<and> amsgrad s' = amsgrad s"
  using assms
proof (induction calls arbitrary: s)
  case Nil
  then show ?case by simp
next
  case (Cons e es)
  from Cons.prems(1) obtain s1 where s1: "call_optimizer c e s = Inr s1" "run c es s1 = Inr s'"
    by (auto split: sum.splits)
  from call_optimizer_vhat [OF s1(1) Cons.prems(2,3)]
  have i1: "built s1" "vhat_dominates s1" "amsgrad s1 = amsgrad s"
    by simp_all
  from Cons.IH [OF s1(2) i1(1,2)] i1(3) show ?case by simp
qed

lemma call_optimizer_nonneg:
  assumes "call_optimizer c e s = Inr s'"
    and "built s" "v_nonneg s" "0 \<le> beta_2 s" "beta_2 s \<le> 1"
    and "c = Momentum \<longrightarrow> 4.004001 * (1 - beta_2 s) \<le> 1"
  shows "built s' \<and> v_nonneg s' \<and> beta_2 s' = beta_2 s"
proof (cases e)
  case (Update g var)
  with assms(1) obtain var' where st: "step c g var s = Inr (var', s')"
    by (auto split: sum.splits)
  have "v_nonneg s'"
  proof (cases c)
    case Base
    with st assms show ?thesis by (auto simp: step_def elim: update_step_nonneg)
  next
    case Momentum
    with st assms show ?thesis by (auto simp: step_def elim: update_step_momentum_nonneg)
  qed
  with step_frame [OF st] assms(2) show ?thesis by simp
next
  case Iterate
  with assms show ?thesis by (auto simp: v_nonneg_def)
next
  case (UpdateLoss x)
  with assms show ?thesis by (auto simp: v_nonneg_def update_loss_def)
next
  case (Build var_list)
  with assms show ?thesis by (auto simp: build_when_built)
qed

lemma run_nonneg:
  assumes "run c calls s = Inr s'"
    and "built s" "v_nonneg s" "0 \<le> beta_2 s" "beta_2 s \<le> 1"
    and "c = Momentum \<longrightarrow> 4.004001 * (1 - beta_2 s) \<le> 1"
  shows "v_nonneg s'"
  using assms
proof (induction calls arbitrary: s)
  case Nil
  then show ?case by simp
next
  case (Cons e es)
  from Cons.prems(1) obtain s1 where s1: "call_optimizer c e s = Inr s1" "run c es s1 = Inr s'"
    by (auto split: sum.splits)
  from call_optimizer_nonneg [OF s1(1) Cons.prems(2-6)]
  have i1: "built s1" "v_nonneg s1" "beta_2 s1 = beta_2 s"
    by simp_all
  from Cons.IH [OF s1(2) i1(1,2)] Cons.prems(4-6) i1(3)
  show ?case by simp
qed

text \<open>
  C4.  The claim has \<open>v\<close> non-negative after every step of either class for any
  gradients.  With \<open>beta_2 = 0.1\<close> the momentum-activated class, started from zero
  moments on a one-entry variable, takes the gradient 1 and then the gradient 0:
  the activation stretches the decay term \<open>- 0.9 v\<close> by \<open>(12001 / 11000)\<^sup>2\<close>, which
  is more than \<open>v\<close> itself, and \<open>v\<close> ends below 0.
\<close>

theorem moments_counterexample:
  "final_velocities
     (run Momentum
        [Update (Dense [1]) example_var, Iterate, Update (Dense [0]) example_var]
        (build [example_var] (Adalpha_init (1 / 1000) 1 (9 / 10) (1 / 10) (1 / 10 ^ 7) False)))
     ! 0 ! 0 < 0"
  by (simp add: final_velocities_def step_def update_step_momentum_def assign_sub_step_def
      build_def base_build_def Adalpha_init_def add_variable_from_reference_def
      example_var_fields enumerate_eq_zip Let_def tadd_def tsub_def tscale_def tf_square_def
      m_activ_single divide_no_nan_def power2_eq_square)

text \<open>
  C4, as amended.  Start from the zero moments of a first \<open>build\<close> and take any run
  of steps of either class with any gradients, dense or sparse, that does not raise.
  With AMS-grad every \<open>v_hat\<close> is then at least its \<open>v\<close> entry by entry.  And if
  \<open>beta_2\<close> lies in \<open>[0, 1]\<close> and, for the momentum-activated class,
  \<open>4.004001 * (1 - beta_2) \<le> 1\<close> (the default 0.999 does), every \<open>v\<close> is
  non-negative entry by entry.
\<close>

theorem moments_invariant:
  assumes "\<not> built s0" and "run c calls (build var_list s0) = Inr s"
  shows "(amsgrad s0 \<longrightarrow>
            (\<exists>vhs. velocity_hats s = Some vhs
                 \<and> list_all2 (list_all2 (\<le>)) (velocities s) vhs))
       \<and> (0 \<le> beta_2 s0 \<and> beta_2 s0 \<le> 1
            \<and> (c = Momentum \<longrightarrow> 4.004001 * (1 - beta_2 s0) \<le> 1)
          \<longrightarrow> list_all (list_all (\<lambda>x. 0 \<le> x)) (velocities s))"
proof -
  note z = build_zero [OF assms(1), of var_list]
  note bb = build_built [of var_list s0]
  have "vhat_dominates s \<and> amsgrad s = amsgrad (build var_list s0)"
    using run_vhat [OF assms(2) bb] z by simp
  then have vh: "amsgrad s0 \<longrightarrow>
            (\<exists>vhs. velocity_hats s = Some vhs
                 \<and> list_all2 (list_all2 (\<le>)) (velocities s) vhs)"
    by (auto simp: vhat_dominates_def build_frame split: option.splits)
  have nn: "v_nonneg s"
    if "0 \<le> beta_2 s0" "beta_2 s0 \<le> 1" "c = Momentum \<longrightarrow> 4.004001 * (1 - beta_2 s0) \<le> 1"
    using run_nonneg [OF assms(2) bb] z that by (simp add: build_frame)
  from vh nn show ?thesis by (simp add: v_nonneg_def)
qed

lemma momentum_example_run:
  "\<exists>s. run Momentum [Update (Dense [1]) example_var, Iterate, Update (Dense [0]) example_var]
          (build [example_var] (Adalpha_init (1 / 10) 1 (1 / 2) (4 / 5) (1 / 2) True)) = Inr s"
  by (simp add: step_def update_step_momentum_def assign_sub_step_def
      build_def base_build_def Adalpha_init_def add_variable_from_reference_def
      example_var_fields enumerate_eq_zip Let_def tadd_def tsub_def tscale_def tf_square_def
      tf_maximum_def m_activ_single)

theorem moments_invariant_witness:
  "\<not> built (Adalpha_init (1 / 10) 1 (1 / 2) (4 / 5) (1 / 2) True)
   \<and> amsgrad (Adalpha_init (1 / 10) 1 (1 / 2) (4 / 5) (1 / 2) True)
   \<and> 0 \<le> beta_2 (Adalpha_init (1 / 10) 1 (1 / 2) (4 / 5) (1 / 2) True)
   \<and> beta_2 (Adalpha_init (1 / 10) 1 (1 / 2) (4 / 5) (1 / 2) True) \<le> 1
   \<and> 4.004001 * (1 - beta_2 (Adalpha_init (1 / 10) 1 (1 / 2) (4 / 5) (1 / 2) True)) \<le> 1
   \<and> (\<exists>s. run Momentum [Update (Dense [1]) example_var, Iterate, Update (Dense [0]) example_var]
            (build [example_var] (Adalpha_init (1 / 10) 1 (1 / 2) (4 / 5) (1 / 2) True)) = Inr s
         \<and> list_all (list_all (\<lambda>x. 0 \<le> x)) (velocities s)
         \<and> (\<exists>vhs. velocity_hats s = Some vhs
                 \<and> list_all2 (list_all2 (\<le>)) (velocities s) vhs))"
proof -
  let ?s0 = "Adalpha_init (1 / 10) 1 (1 / 2) (4 / 5) (1 / 2) True"
  have h: "\<not> built ?s0" "amsgrad ?s0" "0 \<le> beta_2 ?s0" "beta_2 ?s0 \<le> 1"
    "4.004001 * (1 - beta_2 ?s0) \<le> 1"
    by (simp_all add: Adalpha_init_def)
  from momentum_example_run obtain s where
    r: "run Momentum [Update (Dense [1]) example_var, Iterate, Update (Dense [0]) example_var]
          (build [example_var] ?s0) = Inr s"
    by blast
  from moments_invariant [OF h(1) r] h r show ?thesis
    by auto
qed

section \<open>Steps with all-zero gradients\<close>

lemma default_after_one_step_eq:
  "default_after_one_step =
     \<lparr>learning_rate = 1 / 1000, beta_1 = 9 / 10, beta_2 = 999 / 1000, epsilon = 1 / 10 ^ 7,
      amsgrad = False, chaos_punish = 1, std = 1, iterations = 1, built = True,
      index_dict = [0 \<mapsto> 0], momentums = [[1 / 10]], velocities = [[1 / 1000]],
      velocity_hats = None\<rparr>"
  by (simp add: default_after_one_step_def build_def base_build_def Adalpha_init_def Let_def
      add_variable_from_reference_def enumerate_eq_zip example_var_fields)

lemma default_is_reached:
  "run Base [Update (Dense [1]) example_var, Iterate]
     (build [example_var] (Adalpha_init (1 / 1000) 1 (9 / 10) (999 / 1000) (1 / 10 ^ 7) False))
   = Inr default_after_one_step"
  by (simp add: default_after_one_step_def build_def base_build_def Adalpha_init_def Let_def
      add_variable_from_reference_def enumerate_eq_zip example_var_fields step_def
      update_step_def assign_sub_step_def tadd_def tsub_def tscale_def tf_square_def)

lemma assign_sub_step_ready:
  assumes "assign_sub_step k m v alpha var s = Inr (var', s')"
    and "index_dict s (var_key var) = Some k" "k < length (momentums s)"
    "k < length (velocities s)" "length m = n"
  shows "step_ready (s'\<lparr>iterations := t\<rparr>) var' k n"
  using assms
  by (auto simp: assign_sub_step_def Let_def step_ready_def tsub_def tdiv_def tscale_def
      tshift_def tf_sqrt_def tf_maximum_def split: if_splits option.splits)

lemma update_step_dense_ready:
  assumes "update_step (Dense g) var s = Inr (var', s')" and "step_ready s var k n"
  shows "step_ready (s'\<lparr>iterations := t\<rparr>) var' k n"
proof -
  let ?m = "tadd (momentums s ! k) (tscale (tsub g (momentums s ! k)) (1 - beta_1 s))"
  from assms have r: "index_dict s (var_key var) = Some k" "k < length (momentums s)"
    "k < length (velocities s)" "length (momentums s ! k) = n"
    by (simp_all add: step_ready_def)
  from assms(1) r have len: "length g = n"
    by (auto simp: update_step_def Let_def split: if_splits)
  have lm: "length ?m = n" using r len by (simp add: tadd_def tscale_def tsub_def)
  from assms(1) r obtain v1 alpha where "assign_sub_step k ?m v1 alpha var s = Inr (var', s')"
    by (auto simp: update_step_def Let_def split: if_splits)
  from this r(1-3) lm show ?thesis by (rule assign_sub_step_ready)
qed

lemma zero_steps_state:
  assumes rdy: "step_ready s var k n"
  shows "\<exists>varN sN. zero_steps N var s = Inr (varN, sN) \<and> step_ready sN varN k n
     \<and> iterations sN = iterations s + N
     \<and> learning_rate sN = learning_rate s \<and> beta_1 sN = beta_1 s \<and> beta_2 sN = beta_2 s
     \<and> epsilon sN = epsilon s \<and> std sN = std s \<and> chaos_punish sN = chaos_punish s
     \<and> amsgrad sN = amsgrad s
     \<and> (\<forall>i<n. momentums sN ! k ! i = beta_1 s ^ N * momentums s ! k ! i
             \<and> velocities sN ! k ! i = beta_2 s ^ N * velocities s ! k ! i)"
proof (induction N)
  case 0
  with rdy show ?case by simp
next
  case (Suc N)
  then obtain varN sN where st: "zero_steps N var s = Inr (varN, sN)"
    and rN: "step_ready sN varN k n"
    and fr: "iterations sN = iterations s + N" "learning_rate sN = learning_rate s"
      "beta_1 sN = beta_1 s" "beta_2 sN = beta_2 s" "epsilon sN = epsilon s" "std sN = std s"
      "chaos_punish sN = chaos_punish s" "amsgrad sN = amsgrad s"
    and mv: "\<And>i. i < n \<Longrightarrow> momentums sN ! k ! i = beta_1 s ^ N * momentums s ! k ! i
             \<and> velocities sN ! k ! i = beta_2 s ^ N * velocities s ! k ! i"
    by blast
  let ?z = "replicate (length (var_value varN)) (0 :: real)"
  have ln: "length (var_value varN) = n" using rN by (simp add: step_ready_def)
  have rz: "step_ready sN varN k (length ?z)" using rN ln by simp
  from dense_step_result [OF rz]
  obtain var' s' where up: "update_step (Dense ?z) varN sN = Inr (var', s')"
    and nth: "\<And>i. i < n \<Longrightarrow>
          momentums s' ! k ! i
            = momentums sN ! k ! i + (?z ! i - momentums sN ! k ! i) * (1 - beta_1 sN)
        \<and> velocities s' ! k ! i
            = velocities sN ! k ! i + ((?z ! i)\<^sup>2 - velocities sN ! k ! i) * (1 - beta_2 sN)"
    unfolding length_replicate ln by blast
  let ?s2 = "s'\<lparr>iterations := iterations s' + 1\<rparr>"
  have z: "zero_steps (Suc N) var s = Inr (var', ?s2)"
    using st up by (simp add: zero_gradient_def)
  have r2: "step_ready ?s2 var' k n"
    using up rN by (rule update_step_dense_ready)
  note f2 = update_step_frame [OF up]
  have mv2: "\<And>i. i < n \<Longrightarrow> momentums ?s2 ! k ! i = beta_1 s ^ Suc N * momentums s ! k ! i
             \<and> velocities ?s2 ! k ! i = beta_2 s ^ Suc N * velocities s ! k ! i"
  proof -
    fix i assume i: "i < n"
    from nth [OF i] mv [OF i] i ln fr
    show "momentums ?s2 ! k ! i = beta_1 s ^ Suc N * momentums s ! k ! i
             \<and> velocities ?s2 ! k ! i = beta_2 s ^ Suc N * velocities s ! k ! i"
      by (simp add: algebra_simps)
  qed
  show ?case
    unfolding z using r2 f2 fr mv2 by simp
qed

lemma alpha_bound:
  assumes b1: "0 \<le> b1" "b1 < 1" and b2: "0 \<le> b2" "b2 \<le> 1" and T: "1 \<le> (T :: nat)"
  shows "\<bar>lr * sqrt (1 - b2 ^ T) / (1 - b1 ^ T) * c\<bar> \<le> \<bar>lr * c\<bar> / (1 - (b1 :: real))"
proof -
  define S where "S = sqrt (1 - b2 ^ T)"
  define D where "D = 1 - b1 ^ T"
  have p2: "0 \<le> b2 ^ T" "b2 ^ T \<le> 1"
    using b2 by (simp_all add: power_le_one)
  have S: "0 \<le> S" "S \<le> 1"
    using p2 by (simp_all add: S_def)
  have "b1 ^ T \<le> b1 ^ 1"
    using T b1 by (intro power_decreasing) simp_all
  then have D: "1 - b1 \<le> D" by (simp add: D_def)
  have pos: "0 < 1 - b1" using b1 by simp
  with D have Dpos: "0 < D" by linarith
  have "S / D \<le> 1 / (1 - b1)"
    using S pos D by (intro frac_le) simp_all
  then have "\<bar>lr * c\<bar> * (S / D) \<le> \<bar>lr * c\<bar> * (1 / (1 - b1))"
    by (intro mult_left_mono) simp_all
  moreover have "\<bar>lr * S / D * c\<bar> = \<bar>lr * c\<bar> * (S / D)"
    using S Dpos by (simp add: abs_mult)
  ultimately show ?thesis by (simp add: S_def D_def)
qed

lemma delta_bound:
  assumes b1: "0 \<le> b1" "b1 < 1" and b2: "0 \<le> b2" "b2 \<le> 1" and T: "1 \<le> (T :: nat)"
    and e: "0 < e" and d: "0 \<le> d"
  shows "\<bar>(M * (lr * sqrt (1 - b2 ^ T) / (1 - b1 ^ T) * c)) / (sqrt d + e)\<bar>
       \<le> \<bar>M\<bar> * \<bar>lr * c\<bar> / ((1 - b1) * e)"
proof -
  define A where "A = lr * sqrt (1 - b2 ^ T) / (1 - b1 ^ T) * c"
  have A: "\<bar>A\<bar> \<le> \<bar>lr * c\<bar> / (1 - b1)"
    unfolding A_def using b1 b2 T by (rule alpha_bound)
  have den: "e \<le> sqrt d + e" using d by simp
  have "\<bar>(M * A) / (sqrt d + e)\<bar> = (\<bar>M\<bar> * \<bar>A\<bar>) / (sqrt d + e)"
    using den e by (simp add: abs_mult)
  also have "\<dots> \<le> (\<bar>M\<bar> * (\<bar>lr * c\<bar> / (1 - b1))) / e"
    using A e den by (intro frac_le mult_left_mono mult_nonneg_nonneg) simp_all
  also have "\<dots> = \<bar>M\<bar> * \<bar>lr * c\<bar> / ((1 - b1) * e)"
    by simp
  finally show ?thesis by (simp add: A_def)
qed

text \<open>
  C8.  The claim has the magnitude of the parameter delta strictly decrease from one
  all-zero-gradient step to the next.  A default-constructed optimizer (control
  signal 1.0, \<open>chaos_punishment\<close> 1) has the step scale \<open>(1 - 1 * 1)^1 = 0\<close>: after a
  first step with gradient 1 its moments are not zero, yet the next two steps with
  zero gradients both apply the delta 0.
\<close>

theorem zero_steps_counterexample:
  "\<not> \<bar>zero_step_delta (Suc 0) example_var default_after_one_step ! 0\<bar>
     < \<bar>zero_step_delta 0 example_var default_after_one_step ! 0\<bar>"
  by (simp add: zero_step_delta_def final_value_def zero_gradient_def default_after_one_step_eq
      example_var_fields update_step_def assign_sub_step_def Let_def
      tadd_def tsub_def tscale_def tf_square_def tdiv_def tshift_def tf_sqrt_def)

text \<open>
  C8, as amended.  Let all-zero dense gradients be applied to a built variable for
  \<open>N\<close> and then one more consecutive steps of the base class, control signal and
  learning rate held fixed.  The steps return; after \<open>N\<close> of them \<open>m\<close> is
  \<open>beta_1^N\<close> times and \<open>v\<close> is \<open>beta_2^N\<close> times what it was (pure exponential
  decay); and, for \<open>beta_1\<close> in \<open>[0, 1)\<close>, \<open>beta_2\<close> in \<open>[0, 1]\<close>, a positive
  \<open>epsilon\<close> and a non-negative \<open>v\<close>, the magnitude of the delta that step \<open>N + 1\<close>
  applies is at most \<open>beta_1^(N+1) * |m| * |lr * (1 - std * chaos_punish)^chaos_punish|
  / ((1 - beta_1) * epsilon)\<close>, a bound that decreases geometrically to 0.
\<close>

theorem zero_steps_decay:
  assumes rdy: "step_ready s var k n"
    and b1: "0 \<le> beta_1 s" "beta_1 s < 1" and b2: "0 \<le> beta_2 s" "beta_2 s \<le> 1"
    and e: "0 < epsilon s" and v0: "list_all (\<lambda>x. 0 \<le> x) (velocities s ! k)"
  shows "\<exists>varN sN varS sS.
       zero_steps N var s = Inr (varN, sN) \<and> zero_steps (Suc N) var s = Inr (varS, sS)
     \<and> (\<forall>i<n. momentums sN ! k ! i = beta_1 s ^ N * momentums s ! k ! i
             \<and> velocities sN ! k ! i = beta_2 s ^ N * velocities s ! k ! i
             \<and> \<bar>zero_step_delta N var s ! i\<bar>
                 \<le> beta_1 s ^ Suc N
                    * (\<bar>momentums s ! k ! i\<bar>
                       * \<bar>learning_rate s * (1 - std s * real (chaos_punish s)) ^ chaos_punish s\<bar>
                       / ((1 - beta_1 s) * epsilon s)))"
proof -
  from zero_steps_state [OF rdy, of N]
  obtain varN sN where st: "zero_steps N var s = Inr (varN, sN)"
    and rN: "step_ready sN varN k n"
    and fr: "iterations sN = iterations s + N" "learning_rate sN = learning_rate s"
      "beta_1 sN = beta_1 s" "beta_2 sN = beta_2 s" "epsilon sN = epsilon s" "std sN = std s"
      "chaos_punish sN = chaos_punish s" "amsgrad sN = amsgrad s"
    and mv: "\<And>i. i < n \<Longrightarrow> momentums sN ! k ! i = beta_1 s ^ N * momentums s ! k ! i
             \<and> velocities sN ! k ! i = beta_2 s ^ N * velocities s ! k ! i"
    by blast
  let ?z = "replicate (length (var_value varN)) (0 :: real)"
  let ?c = "(1 - std s * real (chaos_punish s)) ^ chaos_punish s"
  let ?T = "iterations s + N + 1"
  have ln: "length (var_value varN) = n" using rN by (simp add: step_ready_def)
  have lv: "length (velocities s ! k) = n" using rdy by (simp add: step_ready_def)
  have rz: "step_ready sN varN k (length ?z)" using rN ln by simp
  from dense_step_result [OF rz]
  obtain var' s' where up: "update_step (Dense ?z) varN sN = Inr (var', s')"
    and lvar: "length (var_value var') = n"
    and nth: "\<And>i. i < n \<Longrightarrow>
          momentums s' ! k ! i
            = momentums sN ! k ! i + (?z ! i - momentums sN ! k ! i) * (1 - beta_1 sN)
        \<and> velocities s' ! k ! i
            = velocities sN ! k ! i + ((?z ! i)\<^sup>2 - velocities sN ! k ! i) * (1 - beta_2 sN)
        \<and> v_or_vhat s' k ! i
            = (if amsgrad sN then max (v_or_vhat sN k ! i) (velocities s' ! k ! i)
               else velocities s' ! k ! i)
        \<and> var_value var' ! i
            = var_value varN ! i
              - (momentums s' ! k ! i
                 * (learning_rate sN * sqrt (1 - beta_2 sN ^ (iterations sN + 1))
                    / (1 - beta_1 sN ^ (iterations sN + 1))
                    * (1 - std sN * real (chaos_punish sN)) ^ chaos_punish sN))
                / (sqrt (v_or_vhat s' k ! i) + epsilon sN)"
    unfolding length_replicate ln by blast
  let ?s2 = "s'\<lparr>iterations := iterations s' + 1\<rparr>"
  have z: "zero_steps (Suc N) var s = Inr (var', ?s2)"
    using st up by (simp add: zero_gradient_def)
  have bound: "\<And>i. i < n \<Longrightarrow> \<bar>zero_step_delta N var s ! i\<bar>
                 \<le> beta_1 s ^ Suc N
                    * (\<bar>momentums s ! k ! i\<bar> * \<bar>learning_rate s * ?c\<bar>
                       / ((1 - beta_1 s) * epsilon s))"
  proof -
    fix i assume i: "i < n"
    note f = nth [OF i]
    have m': "momentums s' ! k ! i = beta_1 s ^ Suc N * momentums s ! k ! i"
      using f mv [OF i] i ln fr by (simp add: algebra_simps)
    have v': "velocities s' ! k ! i = beta_2 s * (beta_2 s ^ N * velocities s ! k ! i)"
      using f mv [OF i] i ln fr by (simp add: algebra_simps)
    have "0 \<le> velocities s ! k ! i"
      using v0 i lv by (simp add: list_all_length)
    then have v'nn: "0 \<le> velocities s' ! k ! i"
      unfolding v' using b2(1) by simp
    have "velocities s' ! k ! i \<le> v_or_vhat s' k ! i"
      using f by simp
    with v'nn have dnn: "0 \<le> v_or_vhat s' k ! i" by linarith
    have fN: "final_value (zero_steps N var s) = var_value varN"
      by (simp add: final_value_def st)
    have fS: "final_value (zero_steps (Suc N) var s) = var_value var'"
      unfolding z by (simp add: final_value_def)
    have d0: "zero_step_delta N var s ! i = var_value varN ! i - var_value var' ! i"
      unfolding zero_step_delta_def fN fS using i ln lvar by (simp add: tsub_def)
    note pv = f [THEN conjunct2, THEN conjunct2, THEN conjunct2, unfolded fr]
    have delta: "zero_step_delta N var s ! i
        = (momentums s' ! k ! i
            * (learning_rate s * sqrt (1 - beta_2 s ^ ?T) / (1 - beta_1 s ^ ?T) * ?c))
          / (sqrt (v_or_vhat s' k ! i) + epsilon s)"
      unfolding d0 pv by simp
    have "\<bar>zero_step_delta N var s ! i\<bar>
        \<le> \<bar>momentums s' ! k ! i\<bar> * \<bar>learning_rate s * ?c\<bar> / ((1 - beta_1 s) * epsilon s)"
      unfolding delta using b1 b2 _ e dnn by (rule delta_bound) simp
    also have "\<bar>momentums s' ! k ! i\<bar> = beta_1 s ^ Suc N * \<bar>momentums s ! k ! i\<bar>"
      unfolding m' using b1(1) by (simp add: abs_mult)
    finally show "\<bar>zero_step_delta N var s ! i\<bar>
                 \<le> beta_1 s ^ Suc N
                    * (\<bar>momentums s ! k ! i\<bar> * \<bar>learning_rate s * ?c\<bar>
                       / ((1 - beta_1 s) * epsilon s))"
      by (simp add: mult.assoc)
  qed
  show ?thesis
    unfolding st z using mv bound by simp
qed

lemma example2_signal:
  "update_loss (1 / 4) (example_opt2 ams) =
     \<lparr>learning_rate = 1 / 10, beta_1 = 1 / 2, beta_2 = 3 / 4, epsilon = 1 / 2, amsgrad = ams,
      chaos_punish = 1, std = 1 / 4, iterations = 0, built = True,
      index_dict = [0 \<mapsto> 0], momentums = [[1, 1]], velocities = [[1, 1]],
      velocity_hats = (if ams then Some [[0, 0]] else None)\<rparr>"
  by (simp add: update_loss_def example2_built)

theorem zero_steps_decay_witness:
  "step_ready (update_loss (1 / 4) (example_opt2 False)) example_var2 0 2
   \<and> 0 \<le> beta_1 (update_loss (1 / 4) (example_opt2 False))
   \<and> beta_1 (update_loss (1 / 4) (example_opt2 False)) < 1
   \<and> 0 \<le> beta_2 (update_loss (1 / 4) (example_opt2 False))
   \<and> beta_2 (update_loss (1 / 4) (example_opt2 False)) \<le> 1
   \<and> 0 < epsilon (update_loss (1 / 4) (example_opt2 False))
   \<and> list_all (\<lambda>x. 0 \<le> x) (velocities (update_loss (1 / 4) (example_opt2 False)) ! 0)
   \<and> (\<exists>varN sN varS sS.
         zero_steps (Suc 0) example_var2 (update_loss (1 / 4) (example_opt2 False))
           = Inr (varN, sN)
       \<and> zero_steps (Suc (Suc 0)) example_var2 (update_loss (1 / 4) (example_opt2 False))
           = Inr (varS, sS)
       \<and> momentums sN ! 0 ! 0 = 1 / 2 \<and> velocities sN ! 0 ! 0 = 3 / 4
       \<and> \<bar>zero_step_delta (Suc 0) example_var2 (update_loss (1 / 4) (example_opt2 False)) ! 0\<bar>
           \<le> 3 / 40)"
proof -
  let ?s = "update_loss (1 / 4) (example_opt2 False)"
  have h: "step_ready ?s example_var2 0 2" "0 \<le> beta_1 ?s" "beta_1 ?s < 1" "0 \<le> beta_2 ?s"
    "beta_2 ?s \<le> 1" "0 < epsilon ?s" "list_all (\<lambda>x. 0 \<le> x) (velocities ?s ! 0)"
    by (simp_all add: example2_signal step_ready_def example_var2_fields)
  from zero_steps_decay [OF h, of "Suc 0"]
  obtain varN sN varS sS where st:
    "zero_steps (Suc 0) example_var2 ?s = Inr (varN, sN)"
    "zero_steps (Suc (Suc 0)) example_var2 ?s = Inr (varS, sS)"
    and nth: "\<forall>i<2. momentums sN ! 0 ! i = beta_1 ?s ^ Suc 0 * momentums ?s ! 0 ! i
             \<and> velocities sN ! 0 ! i = beta_2 ?s ^ Suc 0 * velocities ?s ! 0 ! i
             \<and> \<bar>zero_step_delta (Suc 0) example_var2 ?s ! i\<bar>
                 \<le> beta_1 ?s ^ Suc (Suc 0)
                    * (\<bar>momentums ?s ! 0 ! i\<bar>
                       * \<bar>learning_rate ?s * (1 - std ?s * real (chaos_punish ?s)) ^ chaos_punish ?s\<bar>
                       / ((1 - beta_1 ?s) * epsilon ?s))"
    by blast
  have i0: "(0 :: nat) < 2" by simp
  note f = nth [rule_format, OF i0]
  have m: "momentums sN ! 0 ! 0 = 1 / 2"
    using f [THEN conjunct1] by (simp add: example2_signal)
  have v: "velocities sN ! 0 ! 0 = 3 / 4"
    using f [THEN conjunct2, THEN conjunct1] by (simp add: example2_signal)
  have d: "\<bar>zero_step_delta (Suc 0) example_var2 ?s ! 0\<bar> \<le> 3 / 40"
    using f [THEN conjunct2, THEN conjunct2] by (simp add: example2_signal)
  from h st m v d show ?thesis by blast
qed

lemma fast_decay_opt_eq:
  "fast_decay_opt =
     \<lparr>learning_rate = 1 / 10, beta_1 = 9 / 10, beta_2 = 1 / 8, epsilon = 1 / 10 ^ 7,
      amsgrad = False, chaos_punish = 1, std = 0, iterations = 0, built = True,
      index_dict = [0 \<mapsto> 0], momentums = [[1]], velocities = [[1]],
      velocity_hats = None\<rparr>"
  by (simp add: fast_decay_opt_def build_def base_build_def Adalpha_init_def Let_def
      add_variable_from_reference_def enumerate_eq_zip example_var_fields)

lemma fast_decay_first:
  "zero_step_delta 0 example_var fast_decay_opt ! 0
     = (9 / 10 * (1 / 10 * sqrt (1 - 1 / 8) / (1 - 9 / 10))) / (sqrt (1 / 8) + 1 / 10 ^ 7)"
  by (simp add: zero_step_delta_def final_value_def zero_gradient_def fast_decay_opt_eq
      example_var_fields update_step_def assign_sub_step_def Let_def
      tadd_def tsub_def tscale_def tf_square_def tdiv_def tshift_def tf_sqrt_def)

lemma fast_decay_second:
  "zero_step_delta (Suc 0) example_var fast_decay_opt ! 0
     = (81 / 100 * (1 / 10 * sqrt (1 - (1 / 8)\<^sup>2) / (1 - (9 / 10)\<^sup>2))) / (sqrt (1 / 64) + 1 / 10 ^ 7)"
  by (simp add: zero_step_delta_def final_value_def zero_gradient_def fast_decay_opt_eq
      example_var_fields update_step_def assign_sub_step_def Let_def power2_eq_square
      tadd_def tsub_def tscale_def tf_square_def tdiv_def tshift_def tf_sqrt_def)

lemma sqrt_64: "sqrt 64 = 8"
  using real_sqrt_abs [of 8] by simp

lemma sqrt_63: "sqrt 63 = 3 * sqrt 7"
proof -
  have "sqrt 63 = sqrt (3\<^sup>2 * 7)" by simp
  also have "\<dots> = 3 * sqrt 7" by (simp only: real_sqrt_mult real_sqrt_abs)
  finally show ?thesis .
qed

text \<open>Nor does the magnitude decrease whenever it is not zero: with \<open>beta_1\<close> above
  the square root of \<open>beta_2\<close> the divisor \<open>sqrt(v) + epsilon\<close> shrinks faster than
  \<open>m\<close>, and the second delta is larger than the first.\<close>

lemma fast_decay_grows:
  "\<bar>zero_step_delta 0 example_var fast_decay_opt ! 0\<bar>
     < \<bar>zero_step_delta (Suc 0) example_var fast_decay_opt ! 0\<bar>"
proof -
  have r: "0 < sqrt 7" by simp
  have s8: "0 < sqrt 8" by simp
  have first: "zero_step_delta 0 example_var fast_decay_opt ! 0 = 9 / 10 * sqrt 7 / (1 + sqrt 8 / 10 ^ 7)"
    unfolding fast_decay_first using s8
    by (simp add: real_sqrt_divide field_simps)
  have second: "zero_step_delta (Suc 0) example_var fast_decay_opt ! 0
      = 243 / 190 * sqrt 7 / (1 + 8 / 10 ^ 7)"
    unfolding fast_decay_second
    by (simp add: real_sqrt_divide sqrt_64 sqrt_63 power2_eq_square field_simps)
  have "9 / 10 * sqrt 7 / (1 + sqrt 8 / 10 ^ 7) \<le> 9 / 10 * sqrt 7 / 1"
    using s8 r by (intro frac_le) simp_all
  also have "\<dots> < 243 / 190 * sqrt 7 / (1 + 8 / 10 ^ 7)"
    using r by (simp add: field_simps)
  finally have lt: "9 / 10 * sqrt 7 / (1 + sqrt 8 / 10 ^ 7) < 243 / 190 * sqrt 7 / (1 + 8 / 10 ^ 7)" .
  have p1: "0 \<le> 9 / 10 * sqrt 7 / (1 + sqrt 8 / 10 ^ 7)" using s8 r by simp
  show ?thesis
    unfolding first second using lt p1 by simp
qed

end
